theory Spec2Isabelle
  imports Main "HOL-Library.Word"
begin

unbundle bit_operations_syntax

section \<open>JavaScript strings\<close>

text \<open>
  A JavaScript string is a sequence of UTF-16 code units; \<open>length\<close>, \<open>trim\<close>,
  \<open>endsWith\<close> and regular expressions without the \<open>u\<close> flag all work on code units.
  String literals of the source are ASCII and are written \<open>ascii ''...''\<close>.
\<close>

type_synonym jsstring = "16 word list"

definition ascii :: "string \<Rightarrow> jsstring" where
  "ascii s = map (\<lambda>c. of_nat (of_char c)) s"

text \<open>
  The code units that \<open>String.prototype.trim\<close> strips and that the regular expression
  class \<open>\s\<close> matches (ECMAScript WhiteSpace and LineTerminator): TAB, LF, VT, FF, CR,
  SP, NBSP, U+1680, U+2000..U+200A, U+2028, U+2029, U+202F, U+205F, U+3000, U+FEFF.
\<close>

definition isWhiteSpace :: "16 word \<Rightarrow> bool" where
  "isWhiteSpace c =
     (c = 0x9 \<or> c = 0xA \<or> c = 0xB \<or> c = 0xC \<or> c = 0xD \<or> c = 0x20 \<or> c = 0xA0 \<or>
      c = 0x1680 \<or> (0x2000 \<le> c \<and> c \<le> 0x200A) \<or> c = 0x2028 \<or> c = 0x2029 \<or>
      c = 0x202F \<or> c = 0x205F \<or> c = 0x3000 \<or> c = 0xFEFF)"

definition trimStart :: "jsstring \<Rightarrow> jsstring" where
  "trimStart s = dropWhile isWhiteSpace s"

definition trimEnd :: "jsstring \<Rightarrow> jsstring" where
  "trimEnd s = rev (dropWhile isWhiteSpace (rev s))"

definition trim :: "jsstring \<Rightarrow> jsstring" where
  "trim s = trimEnd (trimStart s)"

definition endsWith :: "jsstring \<Rightarrow> jsstring \<Rightarrow> bool" where
  "endsWith s t = (length t \<le> length s \<and> drop (length s - length t) s = t)"

text \<open>The regular expression class \<open>\d\<close> is the ten ASCII digits; \<open>\D\<close> is its complement.\<close>

definition isDigit :: "16 word \<Rightarrow> bool" where
  "isDigit c = (0x30 \<le> c \<and> c \<le> 0x39)"

definition nonDigit :: "16 word \<Rightarrow> bool" where
  "nonDigit c = (\<not> isDigit c)"

text \<open>\<open>s.replace(/C/g, '')\<close> for a one-character class \<open>C\<close>: every match is deleted.\<close>

definition replaceAllEmpty :: "(16 word \<Rightarrow> bool) \<Rightarrow> jsstring \<Rightarrow> jsstring" where
  "replaceAllEmpty cls s = filter (\<lambda>c. \<not> cls c) s"

subsection \<open>The fragment of regular expressions the source uses\<close>

text \<open>
  A pattern anchored by \<open>^\<close> and \<open>$\<close> (no \<open>m\<close> flag: start and end of input) whose items
  are a literal code unit or a class repeated one or more times. \<open>test\<close> asks whether
  some way of matching exists, which is what the backtracking of \<open>rmatch\<close> explores.
\<close>

datatype rx = Lit "16 word" | OneOrMore "16 word \<Rightarrow> bool"

fun rmatch :: "rx list \<Rightarrow> jsstring \<Rightarrow> bool" where
  "rmatch [] s = (s = [])"
| "rmatch (Lit c # r) [] = False"
| "rmatch (Lit c # r) (x # xs) = (x = c \<and> rmatch r xs)"
| "rmatch (OneOrMore cls # r) [] = False"
| "rmatch (OneOrMore cls # r) (x # xs) =
     (cls x \<and> (rmatch (OneOrMore cls # r) xs \<or> rmatch r xs))"

section \<open>lib/validation\<close>

record File =
  fname :: jsstring
  fsize :: nat
  ftype :: jsstring

record SubmissionFormData =
  fullName :: jsstring
  phoneNumber :: jsstring
  location :: jsstring
  email :: jsstring
  hobbies :: jsstring
  profilePicture :: "File option"
  sourceCode :: "File option"

datatype field = FullName | PhoneNumber | Location | Email | Hobbies | ProfilePicture | SourceCode

type_synonym FormErrors = "field \<rightharpoonup> jsstring"

text \<open>The class \<open>[^\s@]\<close> and the pattern \<open>/^[^\s@]+@[^\s@]+\.[^\s@]+$/\<close>.\<close>

definition notSpaceAt :: "16 word \<Rightarrow> bool" where
  "notSpaceAt c = (\<not> isWhiteSpace c \<and> c \<noteq> 0x40)"

definition emailRegex :: "rx list" where
  "emailRegex =
     [OneOrMore notSpaceAt, Lit 0x40, OneOrMore notSpaceAt, Lit 0x2E, OneOrMore notSpaceAt]"

definition validateEmail :: "jsstring \<Rightarrow> bool" where
  "validateEmail e = rmatch emailRegex e"

definition validatePhoneNumber :: "jsstring \<Rightarrow> bool" where
  "validatePhoneNumber phone =
     (let digitsOnly = replaceAllEmpty nonDigit phone
      in length digitsOnly \<ge> 7 \<and> length digitsOnly \<le> 15)"

text \<open>
  \<open>validateSubmissionForm\<close> assigns at most one message per field, field after field.
  Each block of the source is one definition returning the message it assigns, if any;
  \<open>setError\<close> is the assignment \<open>errors.f = msg\<close>.
\<close>

definition setError :: "FormErrors \<Rightarrow> field \<Rightarrow> jsstring option \<Rightarrow> FormErrors" where
  "setError errors f m = (case m of None \<Rightarrow> errors | Some msg \<Rightarrow> errors(f \<mapsto> msg))"

definition fullNameValidation :: "SubmissionFormData \<Rightarrow> jsstring option" where
  "fullNameValidation data =
     (if trim (fullName data) = [] then Some (ascii ''Full name is required'')
      else if length (trim (fullName data)) < 2
        then Some (ascii ''Full name must be at least 2 characters'')
      else if length (trim (fullName data)) > 100
        then Some (ascii ''Full name must be less than 100 characters'')
      else None)"

definition phoneNumberValidation :: "SubmissionFormData \<Rightarrow> jsstring option" where
  "phoneNumberValidation data =
     (if trim (phoneNumber data) = [] then Some (ascii ''Phone number is required'')
      else if \<not> validatePhoneNumber (phoneNumber data)
        then Some (ascii ''Please enter a valid phone number'')
      else None)"

definition locationValidation :: "SubmissionFormData \<Rightarrow> jsstring option" where
  "locationValidation data =
     (if trim (location data) = [] then Some (ascii ''Location is required'')
      else if length (trim (location data)) < 2
        then Some (ascii ''Location must be at least 2 characters'')
      else if length (trim (location data)) > 100
        then Some (ascii ''Location must be less than 100 characters'')
      else None)"

definition emailValidation :: "SubmissionFormData \<Rightarrow> jsstring option" where
  "emailValidation data =
     (if trim (email data) = [] then Some (ascii ''Email address is required'')
      else if \<not> validateEmail (email data)
        then Some (ascii ''Please enter a valid email address'')
      else None)"

definition hobbiesValidation :: "SubmissionFormData \<Rightarrow> jsstring option" where
  "hobbiesValidation data =
     (if trim (hobbies data) = []
        then Some (ascii ''Please tell us about your hobbies and interests'')
      else if length (trim (hobbies data)) < 20
        then Some (ascii ''Please provide more detail (at least 20 characters)'')
      else if length (trim (hobbies data)) > 1000
        then Some (ascii ''Please keep your response under 1000 characters'')
      else None)"

definition profilePictureValidation :: "SubmissionFormData \<Rightarrow> jsstring option" where
  "profilePictureValidation data =
     (case profilePicture data of
        None \<Rightarrow> Some (ascii ''Profile picture is required'')
      | Some f \<Rightarrow> None)"

definition sourceCodeValidation :: "SubmissionFormData \<Rightarrow> jsstring option" where
  "sourceCodeValidation data =
     (case sourceCode data of
        None \<Rightarrow> Some (ascii ''Source code file is required'')
      | Some f \<Rightarrow>
          if \<not> endsWith (fname f) (ascii ''.zip'')
            then Some (ascii ''Source code must be a .zip file'')
          else if fsize f > 50 * 1024 * 1024
            then Some (ascii ''Source code file must be less than 50MB'')
          else None)"

definition validateSubmissionForm :: "SubmissionFormData \<Rightarrow> FormErrors" where
  "validateSubmissionForm data =
     (let errors = Map.empty;
          errors = setError errors FullName (fullNameValidation data);
          errors = setError errors PhoneNumber (phoneNumberValidation data);
          errors = setError errors Location (locationValidation data);
          errors = setError errors Email (emailValidation data);
          errors = setError errors Hobbies (hobbiesValidation data);
          errors = setError errors ProfilePicture (profilePictureValidation data);
          errors = setError errors SourceCode (sourceCodeValidation data)
      in errors)"

section \<open>lib/imageUtils\<close>

record ImageValidation =
  valid :: bool
  error :: "jsstring option"

definition validTypes :: "jsstring list" where
  "validTypes =
     [ascii ''image/jpeg'', ascii ''image/jpg'', ascii ''image/png'', ascii ''image/webp'']"

definition validateImageFile :: "File \<Rightarrow> ImageValidation" where
  "validateImageFile f =
     (if ftype f \<notin> set validTypes
        then \<lparr>valid = False,
              error = Some (ascii ''Please upload a valid image file (JPEG, PNG, or WebP)'')\<rparr>
      else if fsize f > 20 * 1024 * 1024
        then \<lparr>valid = False,
              error = Some (ascii
                ''Image file is too large. Please select an image under 20MB'')\<rparr>
      else \<lparr>valid = True, error = None\<rparr>)"


section \<open>api/send-email: the notification endpoint\<close>

subsection \<open>JavaScript values\<close>

text \<open>
  What \<open>request.json()\<close> can return, and \<open>undefined\<close> for a property that is not
  there. A number is its IEEE 754 binary64 bit pattern; an object is the list of its own
  properties, a key being read at its first entry.
\<close>

datatype jsval =
    JUndefined
  | JNull
  | JBoolean bool
  | JNumber "64 word"
  | JString jsstring
  | JArray "jsval list"
  | JObject "(jsstring \<times> jsval) list"

definition isZero :: "64 word \<Rightarrow> bool" where
  "isZero n = (n AND 0x7FFFFFFFFFFFFFFF = 0)"

definition isNaN :: "64 word \<Rightarrow> bool" where
  "isNaN n =
     (n AND 0x7FF0000000000000 = 0x7FF0000000000000 \<and> n AND 0x000FFFFFFFFFFFFF \<noteq> 0)"

text \<open>ToBoolean: what \<open>!v\<close> negates.\<close>

fun toBoolean :: "jsval \<Rightarrow> bool" where
  "toBoolean JUndefined = False"
| "toBoolean JNull = False"
| "toBoolean (JBoolean b) = b"
| "toBoolean (JNumber n) = (\<not> isZero n \<and> \<not> isNaN n)"
| "toBoolean (JString s) = (s \<noteq> [])"
| "toBoolean (JArray xs) = True"
| "toBoolean (JObject kvs) = True"

text \<open>
  Reading one of the properties \<open>to\<close>, \<open>name\<close>, \<open>decision\<close>, \<open>feedback\<close> of a value that
  is neither \<open>null\<close> nor \<open>undefined\<close>: an object gives its own property; a boolean, a
  number, a string or an array has none of these four names.
\<close>

fun getProp :: "jsval \<Rightarrow> jsstring \<Rightarrow> jsval" where
  "getProp (JObject kvs) k = (case map_of kvs k of None \<Rightarrow> JUndefined | Some v \<Rightarrow> v)"
| "getProp v k = JUndefined"

text \<open>
  Whether a value can be converted to a string, as a template literal \<open>`${v}`\<close> does.
  An object that has an own property \<open>toString\<close> cannot: the property's value is no
  function, \<open>valueOf\<close> is then either an own property that is no function or the
  inherited one, which returns the object itself, and the conversion throws a TypeError.
  An object without that property gives \<open>[object Object]\<close>. An array converts its
  elements in turn (\<open>null\<close> as the empty string); every other value converts.
\<close>

fun canToString :: "jsval \<Rightarrow> bool" where
  "canToString (JObject kvs) = (map_of kvs (ascii ''toString'') = None)"
| "canToString (JArray xs) = list_all canToString xs"
| "canToString v = True"

subsection \<open>The handler\<close>

datatype RequestBody =
    BodyNotJson jsstring   \<comment> \<open>\<open>request.json()\<close> throws; the error's message\<close>
  | BodyJson jsval

record Env =
  MAILJET_API_KEY :: "jsstring option"
  MAILJET_SECRET_KEY :: "jsstring option"
  MAILJET_FROM_EMAIL :: "jsstring option"
  MAILJET_FROM_NAME :: "jsstring option"

text \<open>
  The outcome of the \<open>fetch\<close> to the mail provider: it rejects (with an error message),
  or it answers with \<open>ok\<close> and a body whose \<open>json()\<close> throws or gives a value.
\<close>

datatype Upstream =
    FetchRejects jsstring
  | FetchResponds bool "jsstring + jsval"

datatype ResponseBody = ErrorBody jsstring | SuccessBody

record Response =
  http_status :: nat
  body :: ResponseBody

text \<open>
  The request sent to the mail provider. The subject, text part and HTML part are one of
  two fixed templates filled with \<open>name\<close> and \<open>feedback\<close>; which one is \<open>acceptedTemplate\<close>
  (\<open>decision === 'accepted'\<close>). The template texts themselves are not modelled.
\<close>

record SendRequest =
  credentials :: "jsstring \<times> jsstring"
  fromEmail :: jsstring
  fromName :: jsstring
  toEmail :: jsval
  toName :: jsval
  acceptedTemplate :: bool
  feedbackText :: jsval

text \<open>\<open>!v\<close> and \<open>v || d\<close> for a \<open>string | undefined\<close> such as an environment variable.\<close>

definition truthy :: "jsstring option \<Rightarrow> bool" where
  "truthy v = (case v of None \<Rightarrow> False | Some s \<Rightarrow> s \<noteq> [])"

definition orElse :: "jsstring option \<Rightarrow> jsstring \<Rightarrow> jsstring" where
  "orElse v d = (case v of None \<Rightarrow> d | Some s \<Rightarrow> if s \<noteq> [] then s else d)"

text \<open>The \<open>catch\<close> block: status 500 with \<open>error.message || 'Failed to send email'\<close>.\<close>

definition catchBlock :: "jsstring \<Rightarrow> Response" where
  "catchBlock message =
     \<lparr>http_status = 500, body = ErrorBody (orElse (Some message) (ascii ''Failed to send email''))\<rparr>"

text \<open>
  The messages of the two TypeErrors the JavaScript engine can raise in the handler: for
  destructuring \<open>null\<close>, and for a value that cannot be converted to a string.
\<close>

record Engine =
  nullMessage :: jsstring
  primitiveMessage :: jsstring

text \<open>
  \<open>POST env engine request upstream\<close> gives the response and the requests sent to the
  mail provider. After the credential check and before the \<open>fetch\<close>, the handler builds
  the HTML and text parts, whose template literals convert \<open>name\<close> and \<open>feedback\<close> to
  strings; a TypeError there reaches the \<open>catch\<close> block like every other exception.
\<close>

definition POST :: "Env \<Rightarrow> Engine \<Rightarrow> RequestBody \<Rightarrow> Upstream \<Rightarrow> Response \<times> SendRequest list" where
  "POST env engine request upstream =
     (case request of
        BodyNotJson message \<Rightarrow> (catchBlock message, [])
      | BodyJson JNull \<Rightarrow> (catchBlock (nullMessage engine), [])
      | BodyJson JUndefined \<Rightarrow> (catchBlock (nullMessage engine), [])
      | BodyJson json \<Rightarrow>
          let to = getProp json (ascii ''to'');
              name = getProp json (ascii ''name'');
              decision = getProp json (ascii ''decision'');
              feedback = getProp json (ascii ''feedback'')
          in
          if \<not> toBoolean to \<or> \<not> toBoolean name \<or> \<not> toBoolean decision \<or> \<not> toBoolean feedback
          then (\<lparr>http_status = 400, body = ErrorBody (ascii ''Missing required fields'')\<rparr>, [])
          else
            let apiKey = MAILJET_API_KEY env;
                secretKey = MAILJET_SECRET_KEY env;
                fromEmail = orElse (MAILJET_FROM_EMAIL env) (ascii ''mariayoussef61@gmail.com'');
                fromName = orElse (MAILJET_FROM_NAME env) (ascii ''Maria Youssef'')
            in
            if \<not> truthy apiKey \<or> \<not> truthy secretKey
            then (\<lparr>http_status = 500,
                    body = ErrorBody (ascii ''Email service not configured'')\<rparr>, [])
            else if \<not> canToString name \<or> \<not> canToString feedback
            then (catchBlock (primitiveMessage engine), [])
            else
              let sent = [\<lparr>credentials = (orElse apiKey [], orElse secretKey []),
                            fromEmail = fromEmail, fromName = fromName,
                            toEmail = to, toName = name,
                            acceptedTemplate = (decision = JString (ascii ''accepted'')),
                            feedbackText = feedback\<rparr>]
              in
              (case upstream of
                 FetchRejects message \<Rightarrow> (catchBlock message, sent)
               | FetchResponds ok errorData \<Rightarrow>
                   if \<not> ok then
                     (case errorData of
                        Inl message \<Rightarrow> (catchBlock message, sent)
                      | Inr data \<Rightarrow> (catchBlock (ascii ''Failed to send email''), sent))
                   else (\<lparr>http_status = 200, body = SuccessBody\<rparr>, sent)))"

section \<open>The validation rules as the specification words them\<close>

text \<open>The number of ASCII digits of a string, counted directly.\<close>

fun digitCount :: "jsstring \<Rightarrow> nat" where
  "digitCount [] = 0"
| "digitCount (c # cs) = (if isDigit c then 1 else 0) + digitCount cs"

text \<open>
  The shape \<open>local@domain.tld\<close>: three non-empty parts free of white space and of
  \<open>@\<close>, separated by one \<open>@\<close> and one dot.
\<close>

definition emailShape :: "jsstring \<Rightarrow> bool" where
  "emailShape e =
     (\<exists>l d t. e = l @ [0x40] @ d @ [0x2E] @ t \<and> l \<noteq> [] \<and> d \<noteq> [] \<and> t \<noteq> [] \<and>
        list_all notSpaceAt l \<and> list_all notSpaceAt d \<and> list_all notSpaceAt t)"

text \<open>
  The rule of each field in the words of the specification: trimmed lengths, digit
  count, address shape, presence of the picture, and an archive named \<open>*.zip\<close> of at
  most 50 MiB (52428800 bytes).
\<close>

definition spec_valid_field :: "SubmissionFormData \<Rightarrow> field \<Rightarrow> bool" where
  "spec_valid_field d f =
     (case f of
        FullName \<Rightarrow> 2 \<le> length (trim (fullName d)) \<and> length (trim (fullName d)) \<le> 100
      | PhoneNumber \<Rightarrow> 7 \<le> digitCount (phoneNumber d) \<and> digitCount (phoneNumber d) \<le> 15
      | Location \<Rightarrow> 2 \<le> length (trim (location d)) \<and> length (trim (location d)) \<le> 100
      | Email \<Rightarrow> emailShape (email d)
      | Hobbies \<Rightarrow> 20 \<le> length (trim (hobbies d)) \<and> length (trim (hobbies d)) \<le> 1000
      | ProfilePicture \<Rightarrow> profilePicture d \<noteq> None
      | SourceCode \<Rightarrow>
          (case sourceCode d of
             None \<Rightarrow> False
           | Some z \<Rightarrow> endsWith (fname z) (ascii ''.zip'') \<and> fsize z \<le> 52428800))"

text \<open>A draft that satisfies every rule, with the archive exactly at the size limit.\<close>

definition draft0 :: SubmissionFormData where
  "draft0 = \<lparr>fullName = ascii ''Ada Lovelace'', phoneNumber = ascii ''+1 555-123-4567'',
     location = ascii ''London'', email = ascii ''ada@example.org'',
     hobbies = ascii ''  Chess, mathematics and long walks.  '',
     profilePicture = Some \<lparr>fname = ascii ''me.png'', fsize = 4096, ftype = ascii ''image/png''\<rparr>,
     sourceCode = Some \<lparr>fname = ascii ''app.zip'', fsize = 52428800,
       ftype = ascii ''application/zip''\<rparr>\<rparr>"


section \<open>Vocabulary for the endpoint's properties\<close>

text \<open>The four fields the handler requires.\<close>

definition requiredKeys :: "jsstring list" where
  "requiredKeys = [ascii ''to'', ascii ''name'', ascii ''decision'', ascii ''feedback'']"




text \<open>A complete request body and a configured environment.\<close>

definition body0 :: "(jsstring \<times> jsval) list" where
  "body0 = [(ascii ''to'', JString (ascii ''dev@example.org'')),
            (ascii ''name'', JString (ascii ''Ada'')),
            (ascii ''decision'', JString (ascii ''accepted'')),
            (ascii ''feedback'', JString (ascii ''Great work''))]"

definition env0 :: Env where
  "env0 = \<lparr>MAILJET_API_KEY = Some (ascii ''key''), MAILJET_SECRET_KEY = Some (ascii ''secret''),
            MAILJET_FROM_EMAIL = None, MAILJET_FROM_NAME = None\<rparr>"

text \<open>
  The engine's messages, and a body whose \<open>name\<close> is the object \<open>{"toString": null}\<close>:
  truthy, but not convertible to a string.
\<close>

definition engine0 :: Engine where
  "engine0 = \<lparr>nullMessage = ascii ''Cannot destructure property of null'',
               primitiveMessage = ascii ''Cannot convert object to primitive value''\<rparr>"



section \<open>The external services\<close>

datatype Status = Pending | Accepted | Rejected

text \<open>
  A row of the \<open>submissions\<close> table. \<open>created_at\<close> is the store's timestamp (the client
  sees it as a string; the store orders by it), here a number.
\<close>

record Submission =
  id' :: jsstring
  user_id :: jsstring
  full_name :: jsstring
  phone_number :: jsstring
  location' :: jsstring
  email' :: jsstring
  hobbies' :: jsstring
  profile_picture_url :: jsstring
  source_code_url :: jsstring
  status :: Status
  feedback' :: "jsstring option"
  created_at :: nat

datatype Decision = DAccepted | DRejected

fun statusOf :: "Decision \<Rightarrow> Status" where
  "statusOf DAccepted = Accepted"
| "statusOf DRejected = Rejected"

text \<open>
  Everything a handler asks of the outside, in the order it asks: calls to the
  authentication, database and storage services, the image compression, and the request
  to \<open>/api/send-email\<close> with its payload \<open>to\<close>, \<open>name\<close>, \<open>decision\<close>, \<open>feedback\<close>.
\<close>

datatype Event =
    AuthGetUser
  | AuthSignOut
  | SelectProfileRole jsstring
  | SelectSubmissionOfUser jsstring
  | SelectSubmissions
  | UpdateSubmission jsstring Status jsstring
  | InsertSubmission jsstring
  | CompressImage File
  | StorageUpload jsstring jsstring
  | PostSendEmail jsstring jsstring Decision jsstring

text \<open>
  The state the pages share: the signed-in user, the two tables, the two storage buckets
  (path to file) and the trace of events so far.
\<close>

record World =
  session :: "jsstring option"
  profiles :: "(jsstring \<times> jsstring) list"
  submissions_table :: "Submission list"
  profile_pictures :: "jsstring \<rightharpoonup> File"
  source_code :: "jsstring \<rightharpoonup> File"
  trace :: "Event list"

text \<open>\<open>.single()\<close>: the row when exactly one row matches, otherwise no data (and an error).\<close>

fun single :: "'a list \<Rightarrow> 'a option" where
  "single [r] = Some r"
| "single rs = None"

text \<open>\<open>.order("created_at", {ascending: false})\<close>.\<close>

definition orderedByCreatedAtDesc :: "Submission list \<Rightarrow> Submission list" where
  "orderedByCreatedAtDesc rows = rev (sort_key created_at rows)"

datatype QueryOutcome = QueryOk | QueryError | QueryThrows

section \<open>What both pages keep\<close>

datatype Toast =
    ToastError jsstring
  | ToastSuccess jsstring
  | ToastLoading jsstring
  | ToastDismiss

text \<open>U+1F389, the emoji that ends the success messages, as its surrogate pair.\<close>

definition partyPopper :: jsstring where
  "partyPopper = [0xD83C, 0xDF89]"

record Page =
  loading :: bool
  toasts :: "Toast list"
  pushed :: "jsstring list"

section \<open>The evaluator's page\<close>

record EvaluatePage = Page +
  submissions :: "Submission list"
  selectedSubmission :: "Submission option"
  feedback :: jsstring
  processing :: bool

definition loadSubmissions :: "QueryOutcome \<Rightarrow> World \<Rightarrow> EvaluatePage \<Rightarrow> World \<times> EvaluatePage" where
  "loadSubmissions q w p =
     (let w = w\<lparr>trace := trace w @ [SelectSubmissions]\<rparr> in
      case q of
        QueryError \<Rightarrow>
          (w, p\<lparr>toasts := toasts p @ [ToastError (ascii ''Failed to load submissions'')]\<rparr>)
      | QueryOk \<Rightarrow>
          (w, p\<lparr>submissions := orderedByCreatedAtDesc (submissions_table w), loading := False\<rparr>)
      | QueryThrows \<Rightarrow>
          (w, p\<lparr>toasts := toasts p @ [ToastError (ascii ''Failed to load submissions'')],
                loading := False\<rparr>))"

definition handleSelectSubmission :: "Submission \<Rightarrow> EvaluatePage \<Rightarrow> EvaluatePage" where
  "handleSelectSubmission submission p =
     p\<lparr>selectedSubmission := Some submission, feedback := orElse (feedback' submission) []\<rparr>"

text \<open>
  The outcome of the \<open>fetch\<close> to \<open>/api/send-email\<close>: it rejects (with an error
  message), or it answers with \<open>ok\<close> and a body whose \<open>text()\<close> rejects (\<open>Inl\<close>, the
  error's message) or gives the text (\<open>Inr\<close>).
\<close>

datatype FetchResult = FetchRejected jsstring | FetchResponse bool "jsstring + jsstring"

text \<open>
  In \<open>handleDecision\<close> the body text of the response is awaited only when the response
  is not ok; a rejection there is thrown inside the \<open>try\<close> and reaches the \<open>catch\<close>
  block, as a rejected \<open>fetch\<close> does.
\<close>

record DecisionOutcome =
  updateError :: bool
  emailResponse :: FetchResult
  reload :: QueryOutcome

definition handleDecision ::
  "Decision \<Rightarrow> DecisionOutcome \<Rightarrow> World \<Rightarrow> EvaluatePage \<Rightarrow> World \<times> EvaluatePage" where
  "handleDecision decision oc w p =
     (case selectedSubmission p of
        None \<Rightarrow> (w, p)
      | Some sel \<Rightarrow>
          if trim (feedback p) = [] then
            (w, p\<lparr>toasts := toasts p @
               [ToastError (ascii ''Please provide feedback before making a decision'')]\<rparr>)
          else
            let p = p\<lparr>processing := True\<rparr>;
                w = w\<lparr>trace := trace w @
                      [UpdateSubmission (id' sel) (statusOf decision) (trim (feedback p))]\<rparr>
            in
            if updateError oc then
              (w, p\<lparr>toasts := toasts p @ [ToastError (ascii ''Failed to update submission'')],
                    processing := False\<rparr>)
            else
              let w = w\<lparr>submissions_table :=
                        map (\<lambda>r. if id' r = id' sel
                                  then r\<lparr>status := statusOf decision,
                                         feedback' := Some (trim (feedback p))\<rparr>
                                  else r)
                          (submissions_table w)\<rparr>;
                  w = w\<lparr>trace := trace w @
                        [PostSendEmail (email' sel) (full_name sel) decision (trim (feedback p))]\<rparr>
              in
              (case emailResponse oc of
                 FetchRejected message \<Rightarrow>
                   (w, p\<lparr>toasts := toasts p @
                           [ToastError (orElse (Some message) (ascii ''Failed to process decision''))],
                         processing := False\<rparr>)
               | FetchResponse ok responseText \<Rightarrow>
                   (case (if \<not> ok then responseText else Inr []) of
                      Inl message \<Rightarrow>
                        (w, p\<lparr>toasts := toasts p @
                                [ToastError
                                   (orElse (Some message) (ascii ''Failed to process decision''))],
                              processing := False\<rparr>)
                    | Inr errorText \<Rightarrow>
                        let p = p\<lparr>toasts := toasts p @
                                  [ToastSuccess (if decision = DAccepted
                                     then ascii ''Candidate accepted! '' @ partyPopper
                                     else ascii ''Decision recorded.'')]\<rparr>;
                            p = p\<lparr>selectedSubmission := None\<rparr>;
                            p = p\<lparr>feedback := []\<rparr>;
                            (w, p) = loadSubmissions (reload oc) w p
                        in (w, p\<lparr>processing := False\<rparr>))))"

text \<open>
  What the page renders of the decision controls: nothing while loading or while the
  list is empty; the Accept and Reject buttons only for a selected submission whose status
  is pending, and disabled while processing or while the feedback is blank.
\<close>

definition decisionButtonsRendered :: "EvaluatePage \<Rightarrow> bool" where
  "decisionButtonsRendered p =
     (\<not> loading p \<and> submissions p \<noteq> [] \<and>
      (case selectedSubmission p of None \<Rightarrow> False | Some sel \<Rightarrow> status sel = Pending))"

definition decisionButtonsDisabled :: "EvaluatePage \<Rightarrow> bool" where
  "decisionButtonsDisabled p = (processing p \<or> trim (feedback p) = [])"

definition clickDecision ::
  "Decision \<Rightarrow> DecisionOutcome \<Rightarrow> World \<Rightarrow> EvaluatePage \<Rightarrow> World \<times> EvaluatePage" where
  "clickDecision decision oc w p =
     (if decisionButtonsRendered p \<and> \<not> decisionButtonsDisabled p
      then handleDecision decision oc w p
      else (w, p))"

section \<open>Vocabulary for the review workflow's properties\<close>

definition isSendEmail :: "Event \<Rightarrow> bool" where
  "isSendEmail e = (case e of PostSendEmail t n d f \<Rightarrow> True | _ \<Rightarrow> False)"

definition isSuccess :: "Toast \<Rightarrow> bool" where
  "isSuccess t = (case t of ToastSuccess m \<Rightarrow> True | _ \<Rightarrow> False)"

text \<open>A store with one pending submission, and the evaluator's page with it selected.\<close>

definition row0 :: Submission where
  "row0 = \<lparr>id' = ascii ''s1'', user_id = ascii ''u1'', full_name = ascii ''Ada Lovelace'',
     phone_number = ascii ''+1 555-123-4567'', location' = ascii ''London'',
     email' = ascii ''ada@example.org'', hobbies' = ascii ''Chess, mathematics and long walks.'',
     profile_picture_url = ascii ''pics/u1/profile.png'',
     source_code_url = ascii ''code/u1/source-code.zip'',
     status = Pending, feedback' = None, created_at = 1\<rparr>"

definition world0 :: World where
  "world0 = \<lparr>session = Some (ascii ''e1''),
     profiles = [(ascii ''e1'', ascii ''evaluator''), (ascii ''u1'', ascii ''developer'')],
     submissions_table = [row0], profile_pictures = Map.empty, source_code = Map.empty,
     trace = []\<rparr>"

definition evaluate0 :: EvaluatePage where
  "evaluate0 = \<lparr>loading = False, toasts = [], pushed = [], submissions = [row0],
     selectedSubmission = Some row0, feedback = ascii ''Great work'', processing = False\<rparr>"

definition outcome0 :: DecisionOutcome where
  "outcome0 =
     \<lparr>updateError = False, emailResponse = FetchResponse True (Inr []), reload = QueryOk\<rparr>"

definition outcomeMailFails :: DecisionOutcome where
  "outcomeMailFails =
     outcome0\<lparr>emailResponse :=
       FetchResponse False (Inr (ascii ''Email service not configured''))\<rparr>"

text \<open>The same response, but reading its body text fails.\<close>

definition outcomeUnread :: DecisionOutcome where
  "outcomeUnread =
     outcome0\<lparr>emailResponse := FetchResponse False (Inl (ascii ''network error''))\<rparr>"

section \<open>The developer's page\<close>

record SubmitPage = Page +
  submitting :: bool
  hasSubmission :: bool
  userId :: "jsstring option"
  formData :: SubmissionFormData
  errors :: FormErrors

text \<open>
  What the outside answers during \<open>checkAuth\<close>: the authentication call may throw, and
  each of the two queries may fail for a reason of the service's own.
\<close>

record CheckOutcome =
  authThrows :: bool
  profileError :: bool
  lookupError :: bool

definition checkAuth :: "CheckOutcome \<Rightarrow> World \<Rightarrow> SubmitPage \<Rightarrow> World \<times> SubmitPage" where
  "checkAuth oc w p =
     (let w = w\<lparr>trace := trace w @ [AuthGetUser]\<rparr> in
      if authThrows oc then (w, p\<lparr>pushed := pushed p @ [ascii ''/login'']\<rparr>)
      else
        case session w of
          None \<Rightarrow> (w, p\<lparr>pushed := pushed p @ [ascii ''/login'']\<rparr>)
        | Some user \<Rightarrow>
            let w = w\<lparr>trace := trace w @ [SelectProfileRole user]\<rparr>;
                profile = (if profileError oc then None
                           else single (filter (\<lambda>(i, role). i = user) (profiles w)))
            in
            if (case profile of None \<Rightarrow> True | Some (i, role) \<Rightarrow> role \<noteq> ascii ''developer'')
            then
              (w\<lparr>trace := trace w @ [AuthSignOut], session := None\<rparr>,
               p\<lparr>toasts := toasts p @
                    [ToastError (ascii ''Access denied. Developer credentials required.'')],
                 pushed := pushed p @ [ascii ''/login'']\<rparr>)
            else
              let p = p\<lparr>userId := Some user\<rparr>;
                  w = w\<lparr>trace := trace w @ [SelectSubmissionOfUser user]\<rparr>;
                  existingSubmission =
                    (if lookupError oc then None
                     else single (filter (\<lambda>r. user_id r = user) (submissions_table w)));
                  p = (case existingSubmission of
                         None \<Rightarrow> p
                       | Some r \<Rightarrow> p\<lparr>hasSubmission := True\<rparr>)
              in (w, p\<lparr>loading := False\<rparr>))"

text \<open>\<open>Object.keys(errors)\<close>, and \<open>name.split(".").pop()\<close>: what follows the last dot.\<close>

definition objectKeys :: "FormErrors \<Rightarrow> field list" where
  "objectKeys errs =
     filter (\<lambda>f. errs f \<noteq> None)
       [FullName, PhoneNumber, Location, Email, Hobbies, ProfilePicture, SourceCode]"

definition splitPop :: "jsstring \<Rightarrow> jsstring" where
  "splitPop s = rev (takeWhile (\<lambda>c. c \<noteq> 0x2E) (rev s))"

text \<open>
  What the outside answers during \<open>handleSubmit\<close>: the compressed file (none when the
  compression fails), whether each upload and the insert return an error, the id and
  timestamp the store gives the new row, and the storage service's public URL of a bucket
  and path.
\<close>

record SubmitOutcome =
  compressed :: "File option"
  imageUploadError :: bool
  codeUploadError :: bool
  submissionError :: bool
  newId :: jsstring
  now :: nat
  publicUrl :: "jsstring \<Rightarrow> jsstring \<Rightarrow> jsstring"

text \<open>The \<open>catch\<close> and \<open>finally\<close> blocks of \<open>handleSubmit\<close>.\<close>

definition catchSubmit :: "jsstring \<Rightarrow> SubmitPage \<Rightarrow> SubmitPage" where
  "catchSubmit message p =
     p\<lparr>toasts := toasts p @
          [ToastDismiss,
           ToastError (orElse (Some message) (ascii ''Failed to submit. Please try again.''))],
       submitting := False\<rparr>"

text \<open>
  After a validation without errors both files are present, so the two non-null
  assertions of the source hold; the branches for an absent file are the errors the
  runtime would raise there.
\<close>

definition handleSubmit :: "SubmitOutcome \<Rightarrow> World \<Rightarrow> SubmitPage \<Rightarrow> World \<times> SubmitPage" where
  "handleSubmit oc w p =
     (let validationErrors = validateSubmissionForm (formData p) in
      if length (objectKeys validationErrors) > 0 then
        (w, p\<lparr>errors := validationErrors,
              toasts := toasts p @ [ToastError (ascii ''Please fix the errors in the form'')]\<rparr>)
      else
        let p = p\<lparr>submitting := True\<rparr> in
        case userId p of
          None \<Rightarrow>
            (w, p\<lparr>toasts := toasts p @ [ToastError (ascii ''User not authenticated'')],
                  submitting := False\<rparr>)
        | Some user \<Rightarrow>
            let p = p\<lparr>toasts := toasts p @
                      [ToastLoading (ascii ''Compressing profile picture...'')]\<rparr>
            in
            (case profilePicture (formData p) of
               None \<Rightarrow> (w, catchSubmit (ascii ''Failed to compress image'') p)
             | Some picture \<Rightarrow>
                 let w = w\<lparr>trace := trace w @ [CompressImage picture]\<rparr> in
                 (case compressed oc of
                    None \<Rightarrow> (w, catchSubmit (ascii ''Failed to compress image'') p)
                  | Some compressedImage \<Rightarrow>
                      let imageExt = splitPop (fname compressedImage);
                          imagePath = user @ ascii ''/profile.'' @ imageExt;
                          w = w\<lparr>trace := trace w @
                                [StorageUpload (ascii ''profile-pictures'') imagePath]\<rparr>
                      in
                      if imageUploadError oc
                      then (w, catchSubmit (ascii ''Failed to upload profile picture'') p)
                      else
                        let w = w\<lparr>profile_pictures :=
                                  (profile_pictures w)(imagePath \<mapsto> compressedImage)\<rparr>;
                            imageUrl = publicUrl oc (ascii ''profile-pictures'') imagePath;
                            p = p\<lparr>toasts := toasts p @
                                  [ToastLoading (ascii ''Uploading source code...'')]\<rparr>
                        in
                        (case sourceCode (formData p) of
                           None \<Rightarrow> (w, catchSubmit [] p)
                         | Some code \<Rightarrow>
                             let codeExt = splitPop (fname code);
                                 codePath = user @ ascii ''/source-code.'' @ codeExt;
                                 w = w\<lparr>trace := trace w @
                                       [StorageUpload (ascii ''source-code'') codePath]\<rparr>
                             in
                             if codeUploadError oc
                             then (w, catchSubmit (ascii ''Failed to upload source code'') p)
                             else
                               let w = w\<lparr>source_code := (source_code w)(codePath \<mapsto> code)\<rparr>;
                                   codeUrl = publicUrl oc (ascii ''source-code'') codePath;
                                   p = p\<lparr>toasts := toasts p @
                                         [ToastLoading (ascii ''Saving submission...'')]\<rparr>;
                                   w = w\<lparr>trace := trace w @ [InsertSubmission user]\<rparr>
                               in
                               if submissionError oc
                               then (w, catchSubmit (ascii ''Failed to save submission'') p)
                               else
                                 (w\<lparr>submissions_table := submissions_table w @
                                      [\<lparr>id' = newId oc,
                                        user_id = user,
                                        full_name = trim (fullName (formData p)),
                                        phone_number = trim (phoneNumber (formData p)),
                                        location' = trim (location (formData p)),
                                        email' = trim (email (formData p)),
                                        hobbies' = trim (hobbies (formData p)),
                                        profile_picture_url = imageUrl,
                                        source_code_url = codeUrl,
                                        status = Pending,
                                        feedback' = None,
                                        created_at = now oc\<rparr>]\<rparr>,
                                  p\<lparr>toasts := toasts p @
                                       [ToastDismiss,
                                        ToastSuccess
                                          (ascii ''Submission successful! '' @ partyPopper)],
                                    hasSubmission := True,
                                    submitting := False\<rparr>)))))"

text \<open>
  The page renders the form, whose submit handler is \<open>handleSubmit\<close>, only when it is
  neither loading nor showing the confirmation of an existing submission; the form's
  controls are disabled while submitting.
\<close>

definition formRendered :: "SubmitPage \<Rightarrow> bool" where
  "formRendered p = (\<not> loading p \<and> \<not> hasSubmission p)"

definition submitForm :: "SubmitOutcome \<Rightarrow> World \<Rightarrow> SubmitPage \<Rightarrow> World \<times> SubmitPage" where
  "submitForm oc w p =
     (if formRendered p \<and> \<not> submitting p then handleSubmit oc w p else (w, p))"

text \<open>The initial state of the page's hooks.\<close>

definition submitPage0 :: SubmitPage where
  "submitPage0 =
     \<lparr>loading = True, toasts = [], pushed = [], submitting = False, hasSubmission = False,
      userId = None,
      formData = \<lparr>fullName = [], phoneNumber = [], location = [], email = [], hobbies = [],
                  profilePicture = None, sourceCode = None\<rparr>,
      errors = Map.empty\<rparr>"

section \<open>Vocabulary for the submission workflow's properties\<close>

definition isInsert :: "Event \<Rightarrow> bool" where
  "isInsert e = (case e of InsertSubmission u \<Rightarrow> True | _ \<Rightarrow> False)"

text \<open>The per-user storage paths \<open>handleSubmit\<close> builds.\<close>

definition imagePathOf :: "jsstring \<Rightarrow> File \<Rightarrow> jsstring" where
  "imagePathOf user c = user @ ascii ''/profile.'' @ splitPop (fname c)"

definition codePathOf :: "jsstring \<Rightarrow> File \<Rightarrow> jsstring" where
  "codePathOf user z = user @ ascii ''/source-code.'' @ splitPop (fname z)"

text \<open>
  The developer \<open>u1\<close> signed in, to a store that already holds their row (\<open>world1\<close>)
  and to one that holds no row yet (\<open>world2\<close>); outcomes in which every service call
  succeeds; and the developer's page showing the form with a valid draft typed in.
\<close>

definition world1 :: World where
  "world1 = world0\<lparr>session := Some (ascii ''u1'')\<rparr>"

definition world2 :: World where
  "world2 = world1\<lparr>submissions_table := []\<rparr>"

definition checkOk :: CheckOutcome where
  "checkOk = \<lparr>authThrows = False, profileError = False, lookupError = False\<rparr>"

definition submitOk :: SubmitOutcome where
  "submitOk = \<lparr>compressed = Some \<lparr>fname = ascii ''me.png'', fsize = 1024, ftype = ascii ''image/png''\<rparr>,
     imageUploadError = False, codeUploadError = False, submissionError = False,
     newId = ascii ''s2'', now = 2,
     publicUrl = (\<lambda>bucket path. bucket @ ascii ''/'' @ path)\<rparr>"

definition readyPage :: SubmitPage where
  "readyPage = submitPage0\<lparr>loading := False, userId := Some (ascii ''u1''), formData := draft0\<rparr>"

text \<open>
  Two instances of the developer's page (two browser tabs) entered one after the other
  while the developer has no row, then each submitting a valid draft; every service call
  succeeds. The result is the shared state after the second submit.
\<close>

definition twoPages :: World where
  "twoPages =
     (let (w, a) = checkAuth checkOk world2 submitPage0;
          (w, b) = checkAuth checkOk w submitPage0;
          (w, a) = submitForm submitOk w (a\<lparr>formData := draft0\<rparr>);
          (w, b) = submitForm (submitOk\<lparr>newId := ascii ''s3'', now := 3\<rparr>) w
                     (b\<lparr>formData := draft0\<rparr>)
      in w)"

section \<open>Properties of the validation engine\<close>

lemmas string_eval = ascii_def trim_def trimStart_def trimEnd_def isWhiteSpace_def
  endsWith_def isDigit_def nonDigit_def replaceAllEmpty_def notSpaceAt_def

lemma length_digitsOnly: "length (replaceAllEmpty nonDigit p) = digitCount p"
  by (induction p) (simp_all add: replaceAllEmpty_def nonDigit_def)

lemma trim_empty_iff: "trim s = [] \<longleftrightarrow> list_all isWhiteSpace s"
proof -
  let ?d = "dropWhile isWhiteSpace s"
  have t: "trim s = [] \<longleftrightarrow> list_all isWhiteSpace ?d"
    by (simp add: trim_def trimEnd_def trimStart_def list_all_iff)
  show ?thesis
  proof
    assume "trim s = []"
    with t have a: "list_all isWhiteSpace ?d" by simp
    have "?d = []"
    proof (rule ccontr)
      assume n: "?d \<noteq> []"
      then have "\<not> isWhiteSpace (hd ?d)" by (rule hd_dropWhile)
      moreover have "hd ?d \<in> set ?d" using n by (rule hd_in_set)
      ultimately show False using a unfolding list_all_iff by blast
    qed
    then show "list_all isWhiteSpace s"
      by (simp add: list_all_iff)
  next
    assume "list_all isWhiteSpace s"
    then have "?d = []" by (simp add: list_all_iff)
    then have "list_all isWhiteSpace ?d" by (simp only: list.pred_inject(1))
    with t show "trim s = []" by simp
  qed
qed

lemma digit_not_space: "isDigit c \<Longrightarrow> \<not> isWhiteSpace c"
proof -
  assume "isDigit c"
  then have b: "48 \<le> unat c" "unat c \<le> 57"
    by (simp_all add: isDigit_def word_le_nat_alt)
  show ?thesis
    unfolding isWhiteSpace_def using b by (auto simp: word_le_nat_alt)
qed

lemma digitCount_spaces: "list_all isWhiteSpace s \<Longrightarrow> digitCount s = 0"
  by (induction s) (auto dest: digit_not_space)

lemma rmatch_Lit: "rmatch (Lit c # r) s \<longleftrightarrow> (\<exists>v. s = c # v \<and> rmatch r v)"
  by (cases s) auto

lemma rmatch_OneOrMore:
  "rmatch (OneOrMore cls # r) s \<longleftrightarrow>
     (\<exists>u v. s = u @ v \<and> u \<noteq> [] \<and> list_all cls u \<and> rmatch r v)"
proof (induction s)
  case Nil
  then show ?case by simp
next
  case (Cons x xs)
  show ?case
  proof
    assume "rmatch (OneOrMore cls # r) (x # xs)"
    then have c: "cls x" and d: "rmatch (OneOrMore cls # r) xs \<or> rmatch r xs" by simp_all
    from d show "\<exists>u v. x # xs = u @ v \<and> u \<noteq> [] \<and> list_all cls u \<and> rmatch r v"
    proof
      assume "rmatch (OneOrMore cls # r) xs"
      then obtain u v where "xs = u @ v" "list_all cls u" "rmatch r v"
        using Cons.IH by blast
      then have "x # xs = (x # u) @ v \<and> x # u \<noteq> [] \<and> list_all cls (x # u) \<and> rmatch r v"
        using c by simp
      then show ?thesis by blast
    next
      assume "rmatch r xs"
      then have "x # xs = [x] @ xs \<and> [x] \<noteq> [] \<and> list_all cls [x] \<and> rmatch r xs"
        using c by simp
      then show ?thesis by blast
    qed
  next
    assume "\<exists>u v. x # xs = u @ v \<and> u \<noteq> [] \<and> list_all cls u \<and> rmatch r v"
    then obtain u v where e: "x # xs = u @ v" and ne: "u \<noteq> []" and a: "list_all cls u"
      and m: "rmatch r v" by blast
    from ne obtain y u' where u: "u = y # u'" by (cases u) auto
    with e have xy: "y = x" and xs: "xs = u' @ v" by simp_all
    have cx: "cls x" using a u xy by simp
    show "rmatch (OneOrMore cls # r) (x # xs)"
    proof (cases "u' = []")
      case True
      then show ?thesis using cx m xs by simp
    next
      case False
      then have "rmatch (OneOrMore cls # r) xs"
        using Cons.IH xs a u m by auto
      then show ?thesis using cx by simp
    qed
  qed
qed

lemma validateEmail_shape: "validateEmail e \<longleftrightarrow> emailShape e"
  unfolding validateEmail_def emailRegex_def emailShape_def
  apply (simp add: rmatch_OneOrMore rmatch_Lit del: ex_simps)
  by blast

lemma dom_setError: "dom (setError e f m) = (if m = None then dom e else insert f (dom e))"
  by (cases m) (simp_all add: setError_def)

lemma dom_validate:
  "dom (validateSubmissionForm d) =
     {f. (f = FullName \<and> fullNameValidation d \<noteq> None) \<or>
         (f = PhoneNumber \<and> phoneNumberValidation d \<noteq> None) \<or>
         (f = Location \<and> locationValidation d \<noteq> None) \<or>
         (f = Email \<and> emailValidation d \<noteq> None) \<or>
         (f = Hobbies \<and> hobbiesValidation d \<noteq> None) \<or>
         (f = ProfilePicture \<and> profilePictureValidation d \<noteq> None) \<or>
         (f = SourceCode \<and> sourceCodeValidation d \<noteq> None)}"
  unfolding validateSubmissionForm_def Let_def dom_setError by auto


lemma fullName_ok: "fullNameValidation d = None \<longleftrightarrow> spec_valid_field d FullName"
  by (auto simp: fullNameValidation_def spec_valid_field_def)

lemma location_ok: "locationValidation d = None \<longleftrightarrow> spec_valid_field d Location"
  by (auto simp: locationValidation_def spec_valid_field_def)

lemma hobbies_ok: "hobbiesValidation d = None \<longleftrightarrow> spec_valid_field d Hobbies"
  by (auto simp: hobbiesValidation_def spec_valid_field_def)

lemma profilePicture_ok:
  "profilePictureValidation d = None \<longleftrightarrow> spec_valid_field d ProfilePicture"
  by (auto simp: profilePictureValidation_def spec_valid_field_def split: option.splits)

lemma sourceCode_ok: "sourceCodeValidation d = None \<longleftrightarrow> spec_valid_field d SourceCode"
  by (auto simp: sourceCodeValidation_def spec_valid_field_def split: option.splits)

lemma phoneNumber_ok: "phoneNumberValidation d = None \<longleftrightarrow> spec_valid_field d PhoneNumber"
proof -
  have "trim (phoneNumber d) = [] \<Longrightarrow> digitCount (phoneNumber d) = 0"
    by (simp add: trim_empty_iff digitCount_spaces)
  then show ?thesis
    by (auto simp: phoneNumberValidation_def spec_valid_field_def validatePhoneNumber_def
        length_digitsOnly)
qed

lemma emailShape_not_blank: "emailShape e \<Longrightarrow> trim e \<noteq> []"
proof
  assume "emailShape e" and "trim e = []"
  then have "list_all isWhiteSpace e" and "0x40 \<in> set e"
    by (auto simp: trim_empty_iff emailShape_def)
  then have "isWhiteSpace 0x40" unfolding list_all_iff by blast
  then show False by (simp add: isWhiteSpace_def)
qed

lemma email_ok: "emailValidation d = None \<longleftrightarrow> spec_valid_field d Email"
  using emailShape_not_blank [of "email d"]
  by (auto simp: emailValidation_def spec_valid_field_def validateEmail_shape)

lemma draft0_valid: "validateSubmissionForm draft0 = Map.empty"
proof -
  have 1: "fullNameValidation draft0 = None"
    by (simp add: draft0_def fullNameValidation_def string_eval)
  have 2: "phoneNumberValidation draft0 = None"
    by (simp add: draft0_def phoneNumberValidation_def validatePhoneNumber_def string_eval)
  have 3: "locationValidation draft0 = None"
    by (simp add: draft0_def locationValidation_def string_eval)
  have "emailShape (ascii ''ada'' @ [0x40] @ ascii ''example'' @ [0x2E] @ ascii ''org'')"
    unfolding emailShape_def
    by (intro exI [of _ "ascii ''ada''"] exI [of _ "ascii ''example''"]
        exI [of _ "ascii ''org''"]) (simp add: string_eval)
  then have "validateEmail (email draft0)"
    by (simp add: validateEmail_shape draft0_def ascii_def)
  then have 4: "emailValidation draft0 = None"
    by (simp add: draft0_def emailValidation_def string_eval)
  have 5: "hobbiesValidation draft0 = None"
    by (simp add: draft0_def hobbiesValidation_def string_eval)
  have 6: "profilePictureValidation draft0 = None"
    by (simp add: draft0_def profilePictureValidation_def)
  have 7: "sourceCodeValidation draft0 = None"
    by (simp add: draft0_def sourceCodeValidation_def string_eval)
  show ?thesis
    by (simp add: validateSubmissionForm_def setError_def 1 2 3 4 5 6 7)
qed

text \<open>
  Claim C4. For every draft, \<open>validateSubmissionForm\<close> returns a map whose keys are
  exactly the failing fields, and the map is empty if and only if every field meets its
  rule: full name and location of trimmed length 2 to 100, 7 to 15 digits in the phone
  number, an address of the shape \<open>local@domain.tld\<close>, hobbies of trimmed length 20 to
  1000 (19 and 1001 fail, 20 and 1000 pass), a profile picture, and a source archive
  whose name ends in \<open>.zip\<close> and whose size is at most 50 MiB.
\<close>

theorem validateSubmissionForm_spec:
  "dom (validateSubmissionForm d) = {f. \<not> spec_valid_field d f} \<and>
   (validateSubmissionForm d = Map.empty \<longleftrightarrow> (\<forall>f. spec_valid_field d f)) \<and>
   (length (trim (hobbies d)) = 19 \<longrightarrow> Hobbies \<in> dom (validateSubmissionForm d)) \<and>
   (length (trim (hobbies d)) = 20 \<longrightarrow> Hobbies \<notin> dom (validateSubmissionForm d)) \<and>
   (length (trim (hobbies d)) = 1000 \<longrightarrow> Hobbies \<notin> dom (validateSubmissionForm d)) \<and>
   (length (trim (hobbies d)) = 1001 \<longrightarrow> Hobbies \<in> dom (validateSubmissionForm d))"
proof -
  have dm: "dom (validateSubmissionForm d) = {f. \<not> spec_valid_field d f}"
  proof (rule set_eqI)
    fix f
    show "f \<in> dom (validateSubmissionForm d) \<longleftrightarrow> f \<in> {f. \<not> spec_valid_field d f}"
      unfolding dom_validate
      by (cases f)
        (simp_all add: fullName_ok phoneNumber_ok location_ok email_ok hobbies_ok
          profilePicture_ok sourceCode_ok)
  qed
  have "validateSubmissionForm d = Map.empty \<longleftrightarrow> dom (validateSubmissionForm d) = {}"
    by simp
  then have em: "validateSubmissionForm d = Map.empty \<longleftrightarrow> (\<forall>f. spec_valid_field d f)"
    unfolding dm by blast
  have h: "Hobbies \<in> dom (validateSubmissionForm d) \<longleftrightarrow>
      \<not> (20 \<le> length (trim (hobbies d)) \<and> length (trim (hobbies d)) \<le> 1000)"
    unfolding dm by (simp add: spec_valid_field_def)
  show ?thesis using dm em h by simp
qed

theorem validateSubmissionForm_spec_witness:
  "validateSubmissionForm draft0 = Map.empty \<and> (\<forall>f. spec_valid_field draft0 f)"
  using validateSubmissionForm_spec [of draft0] draft0_valid by simp

text \<open>
  Claim C7. The verdict of \<open>validatePhoneNumber\<close> depends only on the number of digits
  left after all other characters are stripped: it is valid exactly when that number is
  between 7 and 15, so two strings with the same digit count get the same verdict;
  \<open>+1 555-123-4567\<close> is valid and \<open>123\<close> is not.
\<close>

theorem validatePhoneNumber_digit_count:
  "validatePhoneNumber p = (7 \<le> digitCount p \<and> digitCount p \<le> 15) \<and>
   (digitCount p = digitCount q \<longrightarrow> validatePhoneNumber p = validatePhoneNumber q) \<and>
   validatePhoneNumber (ascii ''+1 555-123-4567'') \<and>
   \<not> validatePhoneNumber (ascii ''123'')"
proof -
  have v: "\<And>s. validatePhoneNumber s = (7 \<le> digitCount s \<and> digitCount s \<le> 15)"
    by (simp add: validatePhoneNumber_def length_digitsOnly)
  have a: "digitCount (ascii ''+1 555-123-4567'') = 11"
    by (simp add: ascii_def isDigit_def)
  have b: "digitCount (ascii ''123'') = 3"
    by (simp add: ascii_def isDigit_def)
  show ?thesis using v a b by simp
qed

theorem validatePhoneNumber_digit_count_witness:
  "digitCount (ascii ''(555) 123-4567'') = digitCount (ascii ''5551234567'') \<and>
   validatePhoneNumber (ascii ''(555) 123-4567'') \<and>
   validatePhoneNumber (ascii ''5551234567'')"
proof -
  have a: "digitCount (ascii ''(555) 123-4567'') = 10"
    by (simp add: ascii_def isDigit_def)
  have b: "digitCount (ascii ''5551234567'') = 10"
    by (simp add: ascii_def isDigit_def)
  show ?thesis
    using validatePhoneNumber_digit_count
      [of "ascii ''(555) 123-4567''" "ascii ''5551234567''"] a b
    by auto
qed

text \<open>
  Claim C8. \<open>validateImageFile\<close> accepts a file exactly when its content type is one of
  the JPEG, PNG or WebP types and its size is at most 20 MiB (20971520 bytes); every
  other file is invalid.
\<close>

theorem validateImageFile_spec:
  "valid (validateImageFile f) \<longleftrightarrow>
     (ftype f = ascii ''image/jpeg'' \<or> ftype f = ascii ''image/jpg'' \<or>
      ftype f = ascii ''image/png'' \<or> ftype f = ascii ''image/webp'') \<and>
     fsize f \<le> 20971520"
  by (auto simp: validateImageFile_def validTypes_def)

theorem validateImageFile_spec_witness:
  "valid (validateImageFile \<lparr>fname = ascii ''a.webp'', fsize = 20971520, ftype = ascii ''image/webp''\<rparr>) \<and>
   \<not> valid (validateImageFile \<lparr>fname = ascii ''a.webp'', fsize = 20971521, ftype = ascii ''image/webp''\<rparr>) \<and>
   \<not> valid (validateImageFile \<lparr>fname = ascii ''a.gif'', fsize = 10, ftype = ascii ''image/gif''\<rparr>)"
  using validateImageFile_spec [of "\<lparr>fname = ascii ''a.webp'', fsize = 20971520, ftype = ascii ''image/webp''\<rparr>"]
    validateImageFile_spec [of "\<lparr>fname = ascii ''a.webp'', fsize = 20971521, ftype = ascii ''image/webp''\<rparr>"]
    validateImageFile_spec [of "\<lparr>fname = ascii ''a.gif'', fsize = 10, ftype = ascii ''image/gif''\<rparr>"]
  by (simp add: ascii_def)

section \<open>Properties of the notification endpoint\<close>


lemma POST_sends_nothing:
  "\<not> canToString (getProp json (ascii ''name'')) \<or>
   \<not> canToString (getProp json (ascii ''feedback'')) \<or>
   json = JNull \<Longrightarrow>
   snd (POST env eng (BodyJson json) up) = []"
  by (cases json) (simp_all add: POST_def Let_def)

lemma POST_falsy:
  "\<exists>k \<in> set requiredKeys. \<not> toBoolean (getProp (JObject kvs) k) \<Longrightarrow>
   POST env nm (BodyJson (JObject kvs)) up =
     (\<lparr>http_status = 400, body = ErrorBody (ascii ''Missing required fields'')\<rparr>, [])"
  unfolding POST_def requiredKeys_def
  by (simp add: Let_def)







text \<open>
  Claim C10. A body that has all four keys but an empty \<open>feedback\<close> string, or any
  falsy value for one of the four fields, is answered 400 with
  \<open>{error: 'Missing required fields'}\<close> whatever the environment and the provider
  would do, and nothing is sent: the check precedes the credential check and the send.
\<close>

theorem POST_falsy_field_400:
  "(map_of kvs (ascii ''feedback'') = Some (JString []) \<longrightarrow>
      POST env nm (BodyJson (JObject kvs)) up =
        (\<lparr>http_status = 400, body = ErrorBody (ascii ''Missing required fields'')\<rparr>, [])) \<and>
   ((\<exists>k \<in> set requiredKeys. \<not> toBoolean (getProp (JObject kvs) k)) \<longrightarrow>
      POST env nm (BodyJson (JObject kvs)) up =
        (\<lparr>http_status = 400, body = ErrorBody (ascii ''Missing required fields'')\<rparr>, []))"
proof -
  have "map_of kvs (ascii ''feedback'') = Some (JString []) \<Longrightarrow>
      \<exists>k \<in> set requiredKeys. \<not> toBoolean (getProp (JObject kvs) k)"
    by (simp add: requiredKeys_def)
  then show ?thesis using POST_falsy by blast
qed

theorem POST_falsy_field_400_witness:
  "POST env0 engine0 (BodyJson (JObject (body0 [3 := (ascii ''feedback'', JString [])])))
      (FetchResponds True (Inr JNull)) =
     (\<lparr>http_status = 400, body = ErrorBody (ascii ''Missing required fields'')\<rparr>, []) \<and>
   POST env0 engine0 (BodyJson (JObject (body0 [1 := (ascii ''name'', JNumber 0)])))
      (FetchResponds True (Inr JNull)) =
     (\<lparr>http_status = 400, body = ErrorBody (ascii ''Missing required fields'')\<rparr>, [])"
proof -
  have a: "map_of (body0 [3 := (ascii ''feedback'', JString [])]) (ascii ''feedback'') =
      Some (JString [])"
    by (simp add: body0_def ascii_def)
  have b: "\<exists>k \<in> set requiredKeys.
      \<not> toBoolean (getProp (JObject (body0 [1 := (ascii ''name'', JNumber 0)])) k)"
    by (simp add: requiredKeys_def body0_def ascii_def isZero_def)
  show ?thesis
    using POST_falsy_field_400 [of "body0 [3 := (ascii ''feedback'', JString [])]" env0 engine0
        "FetchResponds True (Inr JNull)"]
      POST_falsy_field_400 [of "body0 [1 := (ascii ''name'', JNumber 0)]" env0 engine0
        "FetchResponds True (Inr JNull)"] a b
    by blast
qed

section \<open>Properties of the review workflow\<close>

lemma loadSubmissions_fst: "fst (loadSubmissions q w p) = w\<lparr>trace := trace w @ [SelectSubmissions]\<rparr>"
  by (cases q) (simp_all add: loadSubmissions_def)

lemma loadSubmissions_snd:
  "selectedSubmission (snd (loadSubmissions q w p)) = selectedSubmission p \<and>
   feedback (snd (loadSubmissions q w p)) = feedback p \<and>
   processing (snd (loadSubmissions q w p)) = processing p \<and>
   toasts (snd (loadSubmissions q w p)) =
     toasts p @ (if q = QueryOk then [] else [ToastError (ascii ''Failed to load submissions'')]) \<and>
   (q = QueryOk \<longrightarrow>
      submissions (snd (loadSubmissions q w p)) = orderedByCreatedAtDesc (submissions_table w))"
  by (cases q) (simp_all add: loadSubmissions_def)

lemma handleDecision_blank:
  "trim (feedback p) = [] \<Longrightarrow> fst (handleDecision d oc w p) = w"
  by (simp add: handleDecision_def split: option.split)

lemma handleDecision_update_failed:
  "selectedSubmission p = Some sel \<Longrightarrow> trim (feedback p) \<noteq> [] \<Longrightarrow> updateError oc \<Longrightarrow>
   handleDecision d oc w p =
     (w\<lparr>trace := trace w @ [UpdateSubmission (id' sel) (statusOf d) (trim (feedback p))]\<rparr>,
      p\<lparr>processing := False,
        toasts := toasts p @ [ToastError (ascii ''Failed to update submission'')]\<rparr>)"
  by (simp add: handleDecision_def)

lemma handleDecision_notified:
  "selectedSubmission p = Some sel \<Longrightarrow> trim (feedback p) \<noteq> [] \<Longrightarrow> \<not> updateError oc \<Longrightarrow>
   emailResponse oc = FetchResponse ok rtext \<Longrightarrow> ok \<or> rtext = Inr etext \<Longrightarrow>
   handleDecision d oc w p =
     (w\<lparr>submissions_table :=
          map (\<lambda>r. if id' r = id' sel
                    then r\<lparr>status := statusOf d, feedback' := Some (trim (feedback p))\<rparr>
                    else r)
            (submissions_table w),
        trace := trace w @
          [UpdateSubmission (id' sel) (statusOf d) (trim (feedback p)),
           PostSendEmail (email' sel) (full_name sel) d (trim (feedback p)),
           SelectSubmissions]\<rparr>,
      (snd (loadSubmissions (reload oc)
         (w\<lparr>submissions_table :=
          map (\<lambda>r. if id' r = id' sel
                    then r\<lparr>status := statusOf d, feedback' := Some (trim (feedback p))\<rparr>
                    else r)
            (submissions_table w)\<rparr>)
         (p\<lparr>processing := True,
            toasts := toasts p @
              [ToastSuccess (if d = DAccepted then ascii ''Candidate accepted! '' @ partyPopper
                  else ascii ''Decision recorded.'')],
            selectedSubmission := None, feedback := []\<rparr>)))\<lparr>processing := False\<rparr>)"
  by (cases "reload oc")
    (auto simp: handleDecision_def Let_def loadSubmissions_def cong: if_cong)

lemma handleDecision_unread:
  "selectedSubmission p = Some sel \<Longrightarrow> trim (feedback p) \<noteq> [] \<Longrightarrow> \<not> updateError oc \<Longrightarrow>
   emailResponse oc = FetchResponse False (Inl m) \<Longrightarrow>
   handleDecision d oc w p =
     (w\<lparr>submissions_table :=
          map (\<lambda>r. if id' r = id' sel
                    then r\<lparr>status := statusOf d, feedback' := Some (trim (feedback p))\<rparr>
                    else r)
            (submissions_table w),
        trace := trace w @
          [UpdateSubmission (id' sel) (statusOf d) (trim (feedback p)),
           PostSendEmail (email' sel) (full_name sel) d (trim (feedback p))]\<rparr>,
      p\<lparr>processing := False,
        toasts := toasts p @
          [ToastError (orElse (Some m) (ascii ''Failed to process decision''))]\<rparr>)"
  by (simp add: handleDecision_def Let_def cong: if_cong)

lemma handleDecision_rejected:
  "selectedSubmission p = Some sel \<Longrightarrow> trim (feedback p) \<noteq> [] \<Longrightarrow> \<not> updateError oc \<Longrightarrow>
   emailResponse oc = FetchRejected m \<Longrightarrow>
   handleDecision d oc w p =
     (w\<lparr>submissions_table :=
          map (\<lambda>r. if id' r = id' sel
                    then r\<lparr>status := statusOf d, feedback' := Some (trim (feedback p))\<rparr>
                    else r)
            (submissions_table w),
        trace := trace w @
          [UpdateSubmission (id' sel) (statusOf d) (trim (feedback p)),
           PostSendEmail (email' sel) (full_name sel) d (trim (feedback p))]\<rparr>,
      p\<lparr>processing := False,
        toasts := toasts p @
          [ToastError (orElse (Some m) (ascii ''Failed to process decision''))]\<rparr>)"
  by (simp add: handleDecision_def Let_def cong: if_cong)

text \<open>
  \<open>handleDecision\<close> itself never reads the status of the selection: called on any
  selection with feedback it issues the update. The pending check is the page's, which
  renders the buttons for a pending selection only.
\<close>

lemma handleDecision_ignores_status:
  assumes "selectedSubmission p = Some sel" and "trim (feedback p) \<noteq> []"
  shows "UpdateSubmission (id' sel) (statusOf d) (trim (feedback p))
     \<in> set (trace (fst (handleDecision d oc w p)))"
proof (cases "updateError oc")
  case True
  then show ?thesis by (simp add: handleDecision_update_failed [OF assms])
next
  case False
  show ?thesis
  proof (cases "emailResponse oc")
    case (FetchRejected m)
    then show ?thesis by (simp add: handleDecision_rejected [OF assms False])
  next
    case (FetchResponse ok rtext)
    show ?thesis
    proof (cases "ok \<or> \<not> isl rtext")
      case True
      then obtain etext where "ok \<or> rtext = Inr etext" by (cases rtext) auto
      then show ?thesis
        by (simp add: handleDecision_notified [OF assms False FetchResponse])
    next
      case False
      then obtain m where "ok = False" "rtext = Inl m" by (cases rtext) auto
      then show ?thesis
        using FetchResponse \<open>\<not> updateError oc\<close>
        by (simp add: handleDecision_unread [OF assms])
    qed
  qed
qed

text \<open>
  Claim C1. A decision is rejected locally whenever the feedback is empty or only white
  space, or the selected submission is not pending: \<open>handleDecision\<close> returns at its
  feedback check, and the page offers no enabled Accept or Reject button in either case.
  The shared state is then unchanged: no row of the submissions table is written and no
  request is issued.
\<close>

theorem decision_rejected_locally:
  "(trim (feedback p) = [] \<longrightarrow> fst (handleDecision d oc w p) = w) \<and>
   (trim (feedback p) = [] \<or> (\<exists>sel. selectedSubmission p = Some sel \<and> status sel \<noteq> Pending) \<longrightarrow>
      clickDecision d oc w p = (w, p))"
  by (auto simp: handleDecision_blank clickDecision_def decisionButtonsRendered_def
      decisionButtonsDisabled_def)

theorem decision_rejected_locally_witness:
  "fst (handleDecision DAccepted outcome0 world0 (evaluate0\<lparr>feedback := ascii '' ''\<rparr>)) = world0 \<and>
   clickDecision DRejected outcome0 world0
     (evaluate0\<lparr>selectedSubmission := Some (row0\<lparr>status := Accepted\<rparr>)\<rparr>) =
     (world0, evaluate0\<lparr>selectedSubmission := Some (row0\<lparr>status := Accepted\<rparr>)\<rparr>)"
proof -
  have a: "trim (feedback (evaluate0\<lparr>feedback := ascii '' ''\<rparr>)) = []"
    by (simp add: string_eval)
  have b: "\<exists>sel. selectedSubmission
        (evaluate0\<lparr>selectedSubmission := Some (row0\<lparr>status := Accepted\<rparr>)\<rparr>) = Some sel \<and>
      status sel \<noteq> Pending"
    by simp
  show ?thesis
    using decision_rejected_locally
        [of "evaluate0\<lparr>feedback := ascii '' ''\<rparr>" DAccepted outcome0 world0]
      decision_rejected_locally
        [of "evaluate0\<lparr>selectedSubmission := Some (row0\<lparr>status := Accepted\<rparr>)\<rparr>"
          DRejected outcome0 world0] a b
    by blast
qed

text \<open>
  Whatever the response to the notification, a persisted decision stays: every path of
  \<open>handleDecision\<close> after a successful update leaves the table with the new status and the
  trimmed feedback on the selected row.
\<close>

lemma handleDecision_persisted:
  assumes "selectedSubmission p = Some sel" and "trim (feedback p) \<noteq> []"
    and "\<not> updateError oc"
  shows "submissions_table (fst (handleDecision d oc w p)) =
       map (\<lambda>r. if id' r = id' sel
                 then r\<lparr>status := statusOf d, feedback' := Some (trim (feedback p))\<rparr>
                 else r)
         (submissions_table w)"
proof (cases "emailResponse oc")
  case (FetchRejected m)
  then show ?thesis by (simp add: handleDecision_rejected [OF assms])
next
  case (FetchResponse ok rtext)
  show ?thesis
  proof (cases "ok \<or> \<not> isl rtext")
    case True
    then obtain etext where "ok \<or> rtext = Inr etext" by (cases rtext) auto
    then show ?thesis by (simp add: handleDecision_notified [OF assms FetchResponse])
  next
    case False
    then obtain m where "ok = False" "rtext = Inl m" by (cases rtext) auto
    then show ?thesis using FetchResponse by (simp add: handleDecision_unread [OF assms])
  qed
qed

text \<open>
  Claim C6, as amended. Once the update has been persisted, a response of
  \<open>/api/send-email\<close> that is not ok rolls nothing back: the row keeps the new status and
  the trimmed feedback. When the body text of that response is read, the success toast
  is shown, the selection is cleared, the feedback field is reset, and the list is
  loaded again.
\<close>

theorem notification_failure_not_rolled_back:
  assumes "selectedSubmission p = Some sel" and "trim (feedback p) \<noteq> []"
    and "\<not> updateError oc" and "emailResponse oc = FetchResponse False rtext"
  shows
    "submissions_table (fst (handleDecision d oc w p)) =
       map (\<lambda>r. if id' r = id' sel
                 then r\<lparr>status := statusOf d, feedback' := Some (trim (feedback p))\<rparr>
                 else r)
         (submissions_table w) \<and>
     (\<forall>r \<in> set (submissions_table (fst (handleDecision d oc w p))).
        id' r = id' sel \<longrightarrow>
          status r = statusOf d \<and> feedback' r = Some (trim (feedback p))) \<and>
     (\<forall>etext. rtext = Inr etext \<longrightarrow>
        ToastSuccess (if d = DAccepted then ascii ''Candidate accepted! '' @ partyPopper
           else ascii ''Decision recorded.'') \<in> set (toasts (snd (handleDecision d oc w p))) \<and>
        selectedSubmission (snd (handleDecision d oc w p)) = None \<and>
        feedback (snd (handleDecision d oc w p)) = [] \<and>
        trace (fst (handleDecision d oc w p)) =
          trace w @
            [UpdateSubmission (id' sel) (statusOf d) (trim (feedback p)),
             PostSendEmail (email' sel) (full_name sel) d (trim (feedback p)),
             SelectSubmissions] \<and>
        (reload oc = QueryOk \<longrightarrow>
           submissions (snd (handleDecision d oc w p)) =
             orderedByCreatedAtDesc (submissions_table (fst (handleDecision d oc w p)))))"
proof -
  note a = assms(1) assms(2) assms(3)
  have t: "submissions_table (fst (handleDecision d oc w p)) =
       map (\<lambda>r. if id' r = id' sel
                 then r\<lparr>status := statusOf d, feedback' := Some (trim (feedback p))\<rparr>
                 else r)
         (submissions_table w)"
    by (rule handleDecision_persisted [OF a])
  have r: "\<forall>r \<in> set (submissions_table (fst (handleDecision d oc w p))).
        id' r = id' sel \<longrightarrow>
          status r = statusOf d \<and> feedback' r = Some (trim (feedback p))"
    unfolding t by auto
  have s: "\<forall>etext. rtext = Inr etext \<longrightarrow>
        ToastSuccess (if d = DAccepted then ascii ''Candidate accepted! '' @ partyPopper
           else ascii ''Decision recorded.'') \<in> set (toasts (snd (handleDecision d oc w p))) \<and>
        selectedSubmission (snd (handleDecision d oc w p)) = None \<and>
        feedback (snd (handleDecision d oc w p)) = [] \<and>
        trace (fst (handleDecision d oc w p)) =
          trace w @
            [UpdateSubmission (id' sel) (statusOf d) (trim (feedback p)),
             PostSendEmail (email' sel) (full_name sel) d (trim (feedback p)),
             SelectSubmissions] \<and>
        (reload oc = QueryOk \<longrightarrow>
           submissions (snd (handleDecision d oc w p)) =
             orderedByCreatedAtDesc (submissions_table (fst (handleDecision d oc w p))))"
  proof (intro allI impI)
    fix etext
    assume b: "rtext = Inr etext"
    then have o: "False \<or> rtext = Inr etext" by simp
    note h = handleDecision_notified [OF a assms(4) o, of d w]
    have l: "reload oc = QueryOk \<longrightarrow>
           submissions (snd (handleDecision d oc w p)) =
             orderedByCreatedAtDesc (submissions_table (fst (handleDecision d oc w p)))"
      unfolding t by (simp add: h loadSubmissions_snd)
    show "ToastSuccess (if d = DAccepted then ascii ''Candidate accepted! '' @ partyPopper
           else ascii ''Decision recorded.'') \<in> set (toasts (snd (handleDecision d oc w p))) \<and>
        selectedSubmission (snd (handleDecision d oc w p)) = None \<and>
        feedback (snd (handleDecision d oc w p)) = [] \<and>
        trace (fst (handleDecision d oc w p)) =
          trace w @
            [UpdateSubmission (id' sel) (statusOf d) (trim (feedback p)),
             PostSendEmail (email' sel) (full_name sel) d (trim (feedback p)),
             SelectSubmissions] \<and>
        (reload oc = QueryOk \<longrightarrow>
           submissions (snd (handleDecision d oc w p)) =
             orderedByCreatedAtDesc (submissions_table (fst (handleDecision d oc w p))))"
      using l by (simp add: h loadSubmissions_snd)
  qed
  show ?thesis using t r s by blast
qed

theorem notification_failure_not_rolled_back_witness:
  "submissions_table (fst (handleDecision DAccepted outcomeMailFails world0 evaluate0)) =
     [row0\<lparr>status := Accepted, feedback' := Some (ascii ''Great work'')\<rparr>] \<and>
   ToastSuccess (ascii ''Candidate accepted! '' @ partyPopper)
     \<in> set (toasts (snd (handleDecision DAccepted outcomeMailFails world0 evaluate0))) \<and>
   selectedSubmission (snd (handleDecision DAccepted outcomeMailFails world0 evaluate0)) = None \<and>
   feedback (snd (handleDecision DAccepted outcomeMailFails world0 evaluate0)) = [] \<and>
   submissions (snd (handleDecision DAccepted outcomeMailFails world0 evaluate0)) =
     [row0\<lparr>status := Accepted, feedback' := Some (ascii ''Great work'')\<rparr>]"
proof -
  have 1: "selectedSubmission evaluate0 = Some row0" by (simp add: evaluate0_def)
  have 2: "trim (feedback evaluate0) \<noteq> []" by (simp add: evaluate0_def string_eval)
  have 3: "\<not> updateError outcomeMailFails" by (simp add: outcomeMailFails_def outcome0_def)
  have 4: "emailResponse outcomeMailFails =
      FetchResponse False (Inr (ascii ''Email service not configured''))"
    by (simp add: outcomeMailFails_def)
  have 5: "reload outcomeMailFails = QueryOk" by (simp add: outcomeMailFails_def outcome0_def)
  have 6: "trim (feedback evaluate0) = ascii ''Great work''"
    by (simp add: evaluate0_def string_eval)
  have 7: "submissions_table world0 = [row0]" by (simp add: world0_def)
  show ?thesis
    using notification_failure_not_rolled_back [OF 1 2 3 4, of DAccepted world0] 5
    by (simp add: 6 7 orderedByCreatedAtDesc_def)
qed

text \<open>
  The claim as first stated fails when the body text of the response that is not ok
  cannot be read: the decision is persisted and the email request was made, but no
  success is reported, the selection and the feedback field stay, and the list is not
  loaded again.
\<close>

theorem notification_unread_counterexample:
  "submissions_table (fst (handleDecision DAccepted outcomeUnread world0 evaluate0)) =
     [row0\<lparr>status := Accepted, feedback' := Some (ascii ''Great work'')\<rparr>] \<and>
   trace (fst (handleDecision DAccepted outcomeUnread world0 evaluate0)) =
     [UpdateSubmission (ascii ''s1'') Accepted (ascii ''Great work''),
      PostSendEmail (ascii ''ada@example.org'') (ascii ''Ada Lovelace'') DAccepted
        (ascii ''Great work'')] \<and>
   toasts (snd (handleDecision DAccepted outcomeUnread world0 evaluate0)) =
     [ToastError (ascii ''network error'')] \<and>
   selectedSubmission (snd (handleDecision DAccepted outcomeUnread world0 evaluate0)) =
     Some row0 \<and>
   feedback (snd (handleDecision DAccepted outcomeUnread world0 evaluate0)) =
     ascii ''Great work''"
proof -
  have 1: "selectedSubmission evaluate0 = Some row0" by (simp add: evaluate0_def)
  have 2: "trim (feedback evaluate0) \<noteq> []" by (simp add: evaluate0_def string_eval)
  have 3: "\<not> updateError outcomeUnread" by (simp add: outcomeUnread_def outcome0_def)
  have 4: "emailResponse outcomeUnread = FetchResponse False (Inl (ascii ''network error''))"
    by (simp add: outcomeUnread_def)
  have 6: "trim (ascii ''Great work'') = ascii ''Great work''"
    by (simp add: string_eval)
  have 7: "submissions_table world0 = [row0]" "trace world0 = []"
    by (simp_all add: world0_def)
  have 8: "id' row0 = ascii ''s1''" "email' row0 = ascii ''ada@example.org''"
    "full_name row0 = ascii ''Ada Lovelace''"
    by (simp_all add: row0_def)
  have 9: "toasts evaluate0 = []" "feedback evaluate0 = ascii ''Great work''"
    by (simp_all add: evaluate0_def)
  have 10: "orElse (Some (ascii ''network error'')) (ascii ''Failed to process decision'') =
      ascii ''network error''"
    by (simp add: orElse_def ascii_def)
  show ?thesis
    by (simp add: handleDecision_unread [OF 1 2 3 4] 1 6 7 8 9 10)
qed

text \<open>
  Claim C9. When the update of the submissions row returns an error, \<open>handleDecision\<close>
  stops before the notification: no request to \<open>/api/send-email\<close> is made, no success
  is reported, the selection and the feedback field are as before, and the table is
  unchanged. Only the update request and the error toast are added.
\<close>

theorem update_error_aborts:
  assumes "updateError oc"
  shows
    "filter isSendEmail (trace (fst (handleDecision d oc w p))) = filter isSendEmail (trace w) \<and>
     filter isSuccess (toasts (snd (handleDecision d oc w p))) = filter isSuccess (toasts p) \<and>
     selectedSubmission (snd (handleDecision d oc w p)) = selectedSubmission p \<and>
     feedback (snd (handleDecision d oc w p)) = feedback p \<and>
     submissions_table (fst (handleDecision d oc w p)) = submissions_table w \<and>
     (\<forall>sel. selectedSubmission p = Some sel \<and> trim (feedback p) \<noteq> [] \<longrightarrow>
        trace (fst (handleDecision d oc w p)) =
          trace w @ [UpdateSubmission (id' sel) (statusOf d) (trim (feedback p))] \<and>
        toasts (snd (handleDecision d oc w p)) =
          toasts p @ [ToastError (ascii ''Failed to update submission'')])"
proof (cases "selectedSubmission p")
  case None
  then show ?thesis by (simp add: handleDecision_def)
next
  case (Some sel)
  show ?thesis
  proof (cases "trim (feedback p) = []")
    case True
    then show ?thesis using Some by (simp add: handleDecision_def isSuccess_def)
  next
    case False
    then show ?thesis
      using Some assms
      by (simp add: handleDecision_update_failed isSendEmail_def isSuccess_def)
  qed
qed

theorem update_error_aborts_witness:
  "handleDecision DRejected (outcome0\<lparr>updateError := True\<rparr>) world0 evaluate0 =
     (world0\<lparr>trace := [UpdateSubmission (ascii ''s1'') Rejected (ascii ''Great work'')]\<rparr>,
      evaluate0\<lparr>toasts := [ToastError (ascii ''Failed to update submission'')]\<rparr>) \<and>
   filter isSendEmail (trace (fst (handleDecision DRejected (outcome0\<lparr>updateError := True\<rparr>)
      world0 evaluate0))) = []"
proof -
  have u: "updateError (outcome0\<lparr>updateError := True\<rparr>)" by simp
  have e: "handleDecision DRejected (outcome0\<lparr>updateError := True\<rparr>) world0 evaluate0 =
     (world0\<lparr>trace := [UpdateSubmission (ascii ''s1'') Rejected (ascii ''Great work'')]\<rparr>,
      evaluate0\<lparr>toasts := [ToastError (ascii ''Failed to update submission'')]\<rparr>)"
    by (simp add: handleDecision_def Let_def evaluate0_def world0_def row0_def string_eval)
  have "filter isSendEmail (trace world0) = []" by (simp add: world0_def)
  with update_error_aborts [OF u, of DRejected world0 evaluate0] e show ?thesis by simp
qed

section \<open>Properties of the submission workflow\<close>

lemma handleSubmit_compress_fails:
  "objectKeys (validateSubmissionForm (formData p)) = [] \<Longrightarrow> userId p = Some user \<Longrightarrow>
   profilePicture (formData p) = Some pic \<Longrightarrow> compressed oc = None \<Longrightarrow>
   fst (handleSubmit oc w p) = w\<lparr>trace := trace w @ [CompressImage pic]\<rparr>"
  by (simp add: handleSubmit_def Let_def)

lemma handleSubmit_image_upload_fails:
  "objectKeys (validateSubmissionForm (formData p)) = [] \<Longrightarrow> userId p = Some user \<Longrightarrow>
   profilePicture (formData p) = Some pic \<Longrightarrow> compressed oc = Some c \<Longrightarrow>
   imageUploadError oc \<Longrightarrow>
   fst (handleSubmit oc w p) =
     w\<lparr>trace := trace w @
       [CompressImage pic, StorageUpload (ascii ''profile-pictures'') (imagePathOf user c)]\<rparr>"
  by (simp add: handleSubmit_def Let_def imagePathOf_def)

lemma handleSubmit_code_upload_fails:
  "objectKeys (validateSubmissionForm (formData p)) = [] \<Longrightarrow> userId p = Some user \<Longrightarrow>
   profilePicture (formData p) = Some pic \<Longrightarrow> sourceCode (formData p) = Some z \<Longrightarrow>
   compressed oc = Some c \<Longrightarrow> \<not> imageUploadError oc \<Longrightarrow> codeUploadError oc \<Longrightarrow>
   fst (handleSubmit oc w p) =
     w\<lparr>profile_pictures := (profile_pictures w)(imagePathOf user c \<mapsto> c),
       trace := trace w @
         [CompressImage pic, StorageUpload (ascii ''profile-pictures'') (imagePathOf user c),
          StorageUpload (ascii ''source-code'') (codePathOf user z)]\<rparr>"
  by (simp add: handleSubmit_def Let_def imagePathOf_def codePathOf_def)

lemma handleSubmit_insert_fails:
  "objectKeys (validateSubmissionForm (formData p)) = [] \<Longrightarrow> userId p = Some user \<Longrightarrow>
   profilePicture (formData p) = Some pic \<Longrightarrow> sourceCode (formData p) = Some z \<Longrightarrow>
   compressed oc = Some c \<Longrightarrow> \<not> imageUploadError oc \<Longrightarrow> \<not> codeUploadError oc \<Longrightarrow>
   submissionError oc \<Longrightarrow>
   fst (handleSubmit oc w p) =
     w\<lparr>profile_pictures := (profile_pictures w)(imagePathOf user c \<mapsto> c),
       source_code := (source_code w)(codePathOf user z \<mapsto> z),
       trace := trace w @
         [CompressImage pic, StorageUpload (ascii ''profile-pictures'') (imagePathOf user c),
          StorageUpload (ascii ''source-code'') (codePathOf user z), InsertSubmission user]\<rparr>"
  by (simp add: handleSubmit_def Let_def imagePathOf_def codePathOf_def)

lemma handleSubmit_succeeds:
  "objectKeys (validateSubmissionForm (formData p)) = [] \<Longrightarrow> userId p = Some user \<Longrightarrow>
   profilePicture (formData p) = Some pic \<Longrightarrow> sourceCode (formData p) = Some z \<Longrightarrow>
   compressed oc = Some c \<Longrightarrow> \<not> imageUploadError oc \<Longrightarrow> \<not> codeUploadError oc \<Longrightarrow>
   \<not> submissionError oc \<Longrightarrow>
   handleSubmit oc w p =
     (w\<lparr>profile_pictures := (profile_pictures w)(imagePathOf user c \<mapsto> c),
        source_code := (source_code w)(codePathOf user z \<mapsto> z),
        trace := trace w @
         [CompressImage pic, StorageUpload (ascii ''profile-pictures'') (imagePathOf user c),
          StorageUpload (ascii ''source-code'') (codePathOf user z), InsertSubmission user],
        submissions_table := submissions_table w @
          [\<lparr>id' = newId oc, user_id = user,
            full_name = trim (fullName (formData p)),
            phone_number = trim (phoneNumber (formData p)),
            location' = trim (location (formData p)),
            email' = trim (email (formData p)),
            hobbies' = trim (hobbies (formData p)),
            profile_picture_url = publicUrl oc (ascii ''profile-pictures'') (imagePathOf user c),
            source_code_url = publicUrl oc (ascii ''source-code'') (codePathOf user z),
            status = Pending, feedback' = None, created_at = now oc\<rparr>]\<rparr>,
      p\<lparr>toasts := toasts p @
           [ToastLoading (ascii ''Compressing profile picture...''),
            ToastLoading (ascii ''Uploading source code...''),
            ToastLoading (ascii ''Saving submission...''),
            ToastDismiss, ToastSuccess (ascii ''Submission successful! '' @ partyPopper)],
        hasSubmission := True, submitting := False\<rparr>)"
  by (simp add: handleSubmit_def Let_def imagePathOf_def codePathOf_def)

lemma handleSubmit_table:
  "submissions_table (fst (handleSubmit oc w p)) = submissions_table w \<or>
   (compressed oc \<noteq> None \<and> \<not> imageUploadError oc \<and> \<not> codeUploadError oc \<and>
    \<not> submissionError oc)"
  by (simp add: handleSubmit_def Let_def split: option.split)

lemma draft0_keys: "objectKeys (validateSubmissionForm draft0) = []"
  by (simp add: draft0_valid objectKeys_def)

text \<open>
  Claim C3. A submission that passed validation runs its steps in the order compress
  image, upload image, upload archive, insert row, and stops at the first step that
  fails. If any step fails, the submissions table is as before; if one of the first three
  fails, no insert is issued at all. An image uploaded before a later failure stays in
  its bucket. When every step succeeds exactly one row, pending, is appended for the user.
\<close>

theorem submit_steps_in_order:
  assumes "objectKeys (validateSubmissionForm (formData p)) = []" and "userId p = Some user"
    and "profilePicture (formData p) = Some pic" and "sourceCode (formData p) = Some z"
  shows
    "(compressed oc = None \<or> imageUploadError oc \<or> codeUploadError oc \<or> submissionError oc \<longrightarrow>
        submissions_table (fst (handleSubmit oc w p)) = submissions_table w) \<and>
     (compressed oc = None \<or> imageUploadError oc \<or> codeUploadError oc \<longrightarrow>
        filter isInsert (trace (fst (handleSubmit oc w p))) = filter isInsert (trace w)) \<and>
     (case compressed oc of
        None \<Rightarrow> trace (fst (handleSubmit oc w p)) = trace w @ [CompressImage pic]
      | Some c \<Rightarrow>
          trace (fst (handleSubmit oc w p)) =
            trace w @
              take (if imageUploadError oc then 2 else if codeUploadError oc then 3 else 4)
                [CompressImage pic,
                 StorageUpload (ascii ''profile-pictures'') (imagePathOf user c),
                 StorageUpload (ascii ''source-code'') (codePathOf user z),
                 InsertSubmission user]) \<and>
     (\<forall>c. compressed oc = Some c \<and> \<not> imageUploadError oc \<and>
          (codeUploadError oc \<or> submissionError oc) \<longrightarrow>
        profile_pictures (fst (handleSubmit oc w p)) (imagePathOf user c) = Some c) \<and>
     (\<forall>c. compressed oc = Some c \<and> \<not> imageUploadError oc \<and> \<not> codeUploadError oc \<and>
          \<not> submissionError oc \<longrightarrow>
        (\<exists>row. submissions_table (fst (handleSubmit oc w p)) = submissions_table w @ [row] \<and>
           user_id row = user \<and> status row = Pending))"
proof -
  note a = assms(1) assms(2) assms(3)
  note b = assms
  have 1: "compressed oc = None \<or> imageUploadError oc \<or> codeUploadError oc \<or> submissionError oc
      \<longrightarrow> submissions_table (fst (handleSubmit oc w p)) = submissions_table w"
    using handleSubmit_table [of oc w p] by blast
  show ?thesis
  proof (cases "compressed oc")
    case None
    then show ?thesis
      using 1 by (simp add: handleSubmit_compress_fails [OF a None] isInsert_def)
  next
    case (Some c)
    consider (i) "imageUploadError oc"
      | (ii) "\<not> imageUploadError oc" "codeUploadError oc"
      | (iii) "\<not> imageUploadError oc" "\<not> codeUploadError oc" "submissionError oc"
      | (iv) "\<not> imageUploadError oc" "\<not> codeUploadError oc" "\<not> submissionError oc"
      by blast
    then show ?thesis
    proof cases
      case i
      then show ?thesis
        using 1 Some by (simp add: handleSubmit_image_upload_fails [OF a Some i] isInsert_def)
    next
      case ii
      then show ?thesis
        using 1 Some by (simp add: handleSubmit_code_upload_fails [OF b Some ii] isInsert_def)
    next
      case iii
      then show ?thesis
        using 1 Some by (simp add: handleSubmit_insert_fails [OF b Some iii])
    next
      case iv
      then show ?thesis
        using Some by (simp add: handleSubmit_succeeds [OF b Some iv])
    qed
  qed
qed

theorem submit_steps_in_order_witness:
  "submissions_table (fst (handleSubmit (submitOk\<lparr>codeUploadError := True\<rparr>) world2 readyPage)) =
     [] \<and>
   trace (fst (handleSubmit (submitOk\<lparr>codeUploadError := True\<rparr>) world2 readyPage)) =
     [CompressImage \<lparr>fname = ascii ''me.png'', fsize = 4096, ftype = ascii ''image/png''\<rparr>,
      StorageUpload (ascii ''profile-pictures'') (ascii ''u1/profile.png''),
      StorageUpload (ascii ''source-code'') (ascii ''u1/source-code.zip'')] \<and>
   profile_pictures (fst (handleSubmit (submitOk\<lparr>codeUploadError := True\<rparr>) world2 readyPage))
     (ascii ''u1/profile.png'') =
     Some \<lparr>fname = ascii ''me.png'', fsize = 1024, ftype = ascii ''image/png''\<rparr>"
proof -
  let ?oc = "submitOk\<lparr>codeUploadError := True\<rparr>"
  let ?c = "\<lparr>fname = ascii ''me.png'', fsize = 1024, ftype = ascii ''image/png''\<rparr>"
  let ?z = "\<lparr>fname = ascii ''app.zip'', fsize = 52428800, ftype = ascii ''application/zip''\<rparr>"
  have 1: "objectKeys (validateSubmissionForm (formData readyPage)) = []"
    by (simp add: readyPage_def draft0_keys)
  have 2: "userId readyPage = Some (ascii ''u1'')" by (simp add: readyPage_def)
  have 3: "profilePicture (formData readyPage) =
      Some \<lparr>fname = ascii ''me.png'', fsize = 4096, ftype = ascii ''image/png''\<rparr>"
    by (simp add: readyPage_def draft0_def)
  have 4: "sourceCode (formData readyPage) = Some ?z"
    by (simp add: readyPage_def draft0_def)
  have 5: "compressed ?oc = Some ?c" "\<not> imageUploadError ?oc" "codeUploadError ?oc"
    by (simp_all add: submitOk_def)
  have 6: "imagePathOf (ascii ''u1'') ?c = ascii ''u1/profile.png''"
    by (simp add: imagePathOf_def splitPop_def ascii_def)
  have 7: "codePathOf (ascii ''u1'') ?z = ascii ''u1/source-code.zip''"
    by (simp add: codePathOf_def splitPop_def ascii_def)
  have 8: "submissions_table world2 = []" "trace world2 = []"
    by (simp_all add: world2_def world1_def world0_def)
  show ?thesis
    using submit_steps_in_order [OF 1 2 3 4, of ?oc world2] 5
    by (simp add: 6 7 8)
qed

lemma checkAuth_developer:
  assumes "\<not> authThrows oc" and "session w = Some user" and "\<not> profileError oc"
    and "filter (\<lambda>(i, role). i = user) (profiles w) = [(user, ascii ''developer'')]"
  shows "checkAuth oc w p =
     (w\<lparr>trace := trace w @
         [AuthGetUser, SelectProfileRole user, SelectSubmissionOfUser user]\<rparr>,
      p\<lparr>userId := Some user,
        hasSubmission :=
          (if lookupError oc then hasSubmission p
           else case single (filter (\<lambda>r. user_id r = user) (submissions_table w)) of
                  None \<Rightarrow> hasSubmission p
                | Some r \<Rightarrow> True),
        loading := False\<rparr>)"
  using assms by (simp add: checkAuth_def Let_def split: option.split)

text \<open>
  \<open>handleSubmit\<close> never reads the submissions table, so a page entered before the
  user's row existed still inserts; and \<open>.single()\<close> gives no data for two or more rows,
  so such a user is not blocked on entry either.
\<close>

lemma valid_files_present:
  assumes "objectKeys (validateSubmissionForm d) = []"
  shows "profilePicture d \<noteq> None \<and> sourceCode d \<noteq> None"
proof -
  have "validateSubmissionForm d ProfilePicture = None \<and>
      validateSubmissionForm d SourceCode = None"
    using assms by (simp add: objectKeys_def split: if_splits)
  then have "ProfilePicture \<notin> dom (validateSubmissionForm d) \<and>
      SourceCode \<notin> dom (validateSubmissionForm d)"
    by (simp add: domIff)
  then have "profilePictureValidation d = None \<and> sourceCodeValidation d = None"
    unfolding dom_validate by simp
  then show ?thesis
    by (auto simp: profilePictureValidation_def sourceCodeValidation_def
        split: option.splits)
qed

lemma stale_page_inserts_again:
  assumes "formRendered p" and "\<not> submitting p"
    and "objectKeys (validateSubmissionForm (formData p)) = []" and "userId p = Some user"
    and "compressed oc = Some c" and "\<not> imageUploadError oc" and "\<not> codeUploadError oc"
    and "\<not> submissionError oc"
  shows "map user_id (submissions_table (fst (submitForm oc w p))) =
     map user_id (submissions_table w) @ [user]"
proof -
  obtain pic z where f: "profilePicture (formData p) = Some pic"
    "sourceCode (formData p) = Some z"
    using valid_files_present [OF assms(3)] by auto
  show ?thesis
    using assms(1) assms(2)
    by (simp add: submitForm_def
        handleSubmit_succeeds [OF assms(3) assms(4) f assms(5) assms(6) assms(7) assms(8)])
qed

lemma two_rows_not_detected:
  assumes "\<not> authThrows oc" and "session w = Some user" and "\<not> profileError oc"
    and "filter (\<lambda>(i, role). i = user) (profiles w) = [(user, ascii ''developer'')]"
    and "filter (\<lambda>r. user_id r = user) (submissions_table w) = r1 # r2 # rs"
  shows "hasSubmission (snd (checkAuth oc w p)) = hasSubmission p"
  using assms(5)
  by (simp add: checkAuth_developer [OF assms(1) assms(2) assms(3) assms(4)])

lemma world2_facts:
  "session world2 = Some (ascii ''u1'')"
  "filter (\<lambda>(i, role). i = ascii ''u1'') (profiles world2) = [(ascii ''u1'', ascii ''developer'')]"
  "submissions_table world2 = []"
  by (simp_all add: world2_def world1_def world0_def ascii_def)

lemma checkOk_facts: "\<not> authThrows checkOk" "\<not> profileError checkOk" "\<not> lookupError checkOk"
  by (simp_all add: checkOk_def)

lemma checkAuth_no_row:
  assumes "\<not> authThrows oc" and "session w = Some user" and "\<not> profileError oc"
    and "filter (\<lambda>(i, role). i = user) (profiles w) = [(user, ascii ''developer'')]"
    and "filter (\<lambda>r. user_id r = user) (submissions_table w) = []"
  shows "checkAuth oc w p =
     (w\<lparr>trace := trace w @
         [AuthGetUser, SelectProfileRole user, SelectSubmissionOfUser user]\<rparr>,
      p\<lparr>userId := Some user, loading := False\<rparr>)"
  using assms(5)
  by (simp add: checkAuth_developer [OF assms(1) assms(2) assms(3) assms(4)])

lemma submitForm_keeps_accounts:
  "session (fst (submitForm oc w p)) = session w \<and>
   profiles (fst (submitForm oc w p)) = profiles w"
  by (simp add: submitForm_def handleSubmit_def Let_def split: option.split)

lemma twoPages_rows:
  "map user_id (submissions_table twoPages) = [ascii ''u1'', ascii ''u1''] \<and>
   session twoPages = Some (ascii ''u1'') \<and>
   filter (\<lambda>(i, role). i = ascii ''u1'') (profiles twoPages) =
     [(ascii ''u1'', ascii ''developer'')]"
proof -
  let ?u = "ascii ''u1''"
  let ?t = "[AuthGetUser, SelectProfileRole ?u, SelectSubmissionOfUser ?u]"
  let ?ready = "submitPage0\<lparr>userId := Some ?u, loading := False\<rparr>"
  let ?wA = "world2\<lparr>trace := trace world2 @ ?t\<rparr>"
  let ?wB = "?wA\<lparr>trace := trace ?wA @ ?t\<rparr>"
  let ?oc2 = "submitOk\<lparr>newId := ascii ''s3'', now := 3\<rparr>"
  let ?page = "?ready\<lparr>formData := draft0\<rparr>"
  let ?w1 = "fst (submitForm submitOk ?wB ?page)"
  have a: "checkAuth checkOk world2 submitPage0 = (?wA, ?ready)"
    by (rule checkAuth_no_row) (simp_all add: checkOk_facts world2_facts)
  have b: "checkAuth checkOk ?wA submitPage0 = (?wB, ?ready)"
    by (rule checkAuth_no_row) (simp_all add: checkOk_facts world2_facts)
  have e: "twoPages = fst (submitForm ?oc2 ?w1 ?page)"
    by (simp add: twoPages_def a b split_def)
  have p: "formRendered ?page" "\<not> submitting ?page"
    "objectKeys (validateSubmissionForm (formData ?page)) = []"
    "userId ?page = Some ?u"
    by (simp_all add: formRendered_def submitPage0_def draft0_keys)
  have o: "compressed submitOk =
      Some \<lparr>fname = ascii ''me.png'', fsize = 1024, ftype = ascii ''image/png''\<rparr>"
    "\<not> imageUploadError submitOk" "\<not> codeUploadError submitOk" "\<not> submissionError submitOk"
    by (simp_all add: submitOk_def)
  have o2: "compressed ?oc2 =
      Some \<lparr>fname = ascii ''me.png'', fsize = 1024, ftype = ascii ''image/png''\<rparr>"
    "\<not> imageUploadError ?oc2" "\<not> codeUploadError ?oc2" "\<not> submissionError ?oc2"
    by (simp_all add: submitOk_def)
  have 1: "map user_id (submissions_table ?w1) = [?u]"
    using stale_page_inserts_again [OF p o, of ?wB] by (simp add: world2_facts)
  have 2: "map user_id (submissions_table twoPages) = [?u, ?u]"
    unfolding e using stale_page_inserts_again [OF p o2, of ?w1] 1 by simp
  have 3: "session twoPages = Some ?u \<and>
      filter (\<lambda>(i, role). i = ?u) (profiles twoPages) = [(?u, ascii ''developer'')]"
    unfolding e by (simp add: submitForm_keeps_accounts world2_facts)
  show ?thesis using 2 3 by blast
qed

lemma twoPages_not_detected: "\<not> hasSubmission (snd (checkAuth checkOk twoPages submitPage0))"
proof -
  obtain r1 r2 where t: "submissions_table twoPages = [r1, r2]"
    and u: "user_id r1 = ascii ''u1''" "user_id r2 = ascii ''u1''"
    using twoPages_rows by (auto simp: map_eq_Cons_conv)
  have f: "filter (\<lambda>r. user_id r = ascii ''u1'') (submissions_table twoPages) = r1 # r2 # []"
    by (simp add: t u)
  have "hasSubmission (snd (checkAuth checkOk twoPages submitPage0)) =
      hasSubmission submitPage0"
    using twoPages_rows
    by (intro two_rows_not_detected [OF _ _ _ _ f]) (simp_all add: checkOk_facts)
  then show ?thesis by (simp add: submitPage0_def)
qed

text \<open>
  Claim C2, as amended. When exactly one row of the submissions table belongs to the
  signed-in developer and the lookup on entering the page succeeds, \<open>checkAuth\<close> sets
  \<open>hasSubmission\<close>: the page shows the confirmation instead of the form, a submit event
  changes nothing whatever the draft, the table is unchanged by the entry, and entering
  again gives the same result.
\<close>

theorem existing_submission_blocks:
  assumes "\<not> authThrows oc" and "session w = Some user" and "\<not> profileError oc"
    and "filter (\<lambda>(i, role). i = user) (profiles w) = [(user, ascii ''developer'')]"
    and "\<not> lookupError oc"
    and "filter (\<lambda>r. user_id r = user) (submissions_table w) = [r]"
  shows
    "hasSubmission (snd (checkAuth oc w p)) \<and>
     \<not> formRendered (snd (checkAuth oc w p)) \<and>
     submissions_table (fst (checkAuth oc w p)) = submissions_table w \<and>
     (\<forall>oc' draft.
        submitForm oc' (fst (checkAuth oc w p)) ((snd (checkAuth oc w p))\<lparr>formData := draft\<rparr>) =
          (fst (checkAuth oc w p), (snd (checkAuth oc w p))\<lparr>formData := draft\<rparr>)) \<and>
     (\<forall>p'. hasSubmission (snd (checkAuth oc (fst (checkAuth oc w p)) p')))"
proof -
  note d = assms(1) assms(2) assms(3) assms(4)
  let ?w = "fst (checkAuth oc w p)"
  have h: "hasSubmission (snd (checkAuth oc w p))"
    using assms(5) assms(6) by (simp add: checkAuth_developer [OF d])
  have t: "submissions_table ?w = submissions_table w" "session ?w = session w"
    "profiles ?w = profiles w"
    by (simp_all add: checkAuth_developer [OF d])
  have d': "session ?w = Some user"
    "filter (\<lambda>(i, role). i = user) (profiles ?w) = [(user, ascii ''developer'')]"
    using assms(2) assms(4) t by simp_all
  have again: "\<And>p'. hasSubmission (snd (checkAuth oc ?w p'))"
    using assms(5) assms(6) t(1)
    by (simp add: checkAuth_developer [OF assms(1) d'(1) assms(3) d'(2)])
  show ?thesis
    using h t(1) again by (simp add: submitForm_def formRendered_def)
qed

theorem existing_submission_blocks_witness:
  "hasSubmission (snd (checkAuth checkOk world1 submitPage0)) \<and>
   submitForm submitOk (fst (checkAuth checkOk world1 submitPage0))
     ((snd (checkAuth checkOk world1 submitPage0))\<lparr>formData := draft0\<rparr>) =
     (fst (checkAuth checkOk world1 submitPage0),
      (snd (checkAuth checkOk world1 submitPage0))\<lparr>formData := draft0\<rparr>)"
proof -
  have 1: "\<not> authThrows checkOk" "\<not> profileError checkOk" "\<not> lookupError checkOk"
    by (simp_all add: checkOk_def)
  have 2: "session world1 = Some (ascii ''u1'')" by (simp add: world1_def)
  have 3: "filter (\<lambda>(i, role). i = ascii ''u1'') (profiles world1) =
      [(ascii ''u1'', ascii ''developer'')]"
    by (simp add: world1_def world0_def ascii_def)
  have 4: "filter (\<lambda>r. user_id r = ascii ''u1'') (submissions_table world1) = [row0]"
    by (simp add: world1_def world0_def row0_def)
  show ?thesis
    using existing_submission_blocks [OF 1(1) 2 1(2) 3 1(3) 4, of submitPage0] by blast
qed

text \<open>
  The claim as first stated fails in two ways. The existing row goes undetected when the
  lookup returns an error, which \<open>checkAuth\<close> does not read: the form is rendered, and
  a valid draft submitted from it adds a second row for the same user. And with no
  failure at all, two instances of the page entered before the first submit each insert
  a row; a later entry then finds two rows and does not block either.
\<close>

theorem existing_submission_missed_counterexample:
  "\<not> hasSubmission (snd (checkAuth (checkOk\<lparr>lookupError := True\<rparr>) world1 submitPage0)) \<and>
   formRendered (snd (checkAuth (checkOk\<lparr>lookupError := True\<rparr>) world1 submitPage0)) \<and>
   map user_id (submissions_table (fst
     (submitForm submitOk (fst (checkAuth (checkOk\<lparr>lookupError := True\<rparr>) world1 submitPage0))
        ((snd (checkAuth (checkOk\<lparr>lookupError := True\<rparr>) world1 submitPage0))
           \<lparr>formData := draft0\<rparr>)))) =
     [ascii ''u1'', ascii ''u1''] \<and>
   map user_id (submissions_table twoPages) = [ascii ''u1'', ascii ''u1''] \<and>
   \<not> hasSubmission (snd (checkAuth checkOk twoPages submitPage0))"
proof -
  let ?oc = "checkOk\<lparr>lookupError := True\<rparr>"
  have 1: "\<not> authThrows ?oc" "\<not> profileError ?oc" "lookupError ?oc"
    by (simp_all add: checkOk_def)
  have 2: "session world1 = Some (ascii ''u1'')" by (simp add: world1_def)
  have 3: "filter (\<lambda>(i, role). i = ascii ''u1'') (profiles world1) =
      [(ascii ''u1'', ascii ''developer'')]"
    by (simp add: world1_def world0_def ascii_def)
  note c = checkAuth_developer [OF 1(1) 2 1(2) 3, of submitPage0]
  let ?w = "fst (checkAuth ?oc world1 submitPage0)"
  let ?p = "(snd (checkAuth ?oc world1 submitPage0))\<lparr>formData := draft0\<rparr>"
  have s: "snd (checkAuth ?oc world1 submitPage0) =
      submitPage0\<lparr>userId := Some (ascii ''u1''), loading := False\<rparr>"
    using 1(3) by (simp add: c)
  have a: "\<not> hasSubmission (snd (checkAuth ?oc world1 submitPage0))"
    "formRendered (snd (checkAuth ?oc world1 submitPage0))"
    unfolding s by (simp_all add: formRendered_def submitPage0_def)
  have r: "formRendered ?p" "\<not> submitting ?p"
    unfolding s by (simp_all add: formRendered_def submitPage0_def)
  have v: "objectKeys (validateSubmissionForm (formData ?p)) = []"
    by (simp add: draft0_keys)
  have u: "userId ?p = Some (ascii ''u1'')" by (simp add: c)
  have f: "profilePicture (formData ?p) =
      Some \<lparr>fname = ascii ''me.png'', fsize = 4096, ftype = ascii ''image/png''\<rparr>"
    "sourceCode (formData ?p) =
      Some \<lparr>fname = ascii ''app.zip'', fsize = 52428800, ftype = ascii ''application/zip''\<rparr>"
    by (simp_all add: draft0_def)
  have o: "compressed submitOk =
      Some \<lparr>fname = ascii ''me.png'', fsize = 1024, ftype = ascii ''image/png''\<rparr>"
    "\<not> imageUploadError submitOk" "\<not> codeUploadError submitOk" "\<not> submissionError submitOk"
    by (simp_all add: submitOk_def)
  have "submissions_table ?w = submissions_table world1"
    by (simp add: c)
  then have t: "submissions_table ?w = [row0]"
    by (simp add: world1_def world0_def)
  have "map user_id (submissions_table (fst (handleSubmit submitOk ?w ?p))) =
      [ascii ''u1'', ascii ''u1'']"
    by (simp add: handleSubmit_succeeds [OF v u f o] t row0_def)
  then have "map user_id (submissions_table (fst (submitForm submitOk ?w ?p))) =
      [ascii ''u1'', ascii ''u1'']"
    using r by (simp add: submitForm_def)
  then show ?thesis using a twoPages_rows twoPages_not_detected by blast
qed

end
